theory Spec2Isabelle
  imports Complex_Main "HOL-Library.AList"
begin

section \<open>The product API of \<^verbatim>\<open>app.js\<close>\<close>

text \<open>
  \<^verbatim>\<open>app.js\<close> is an Express application over one MongoDB collection. The handlers
  are embedded as functions on JavaScript values; the collection is a list of documents.
  Three things that are not in \<^verbatim>\<open>app.js\<close> are modelled after their documented
  behaviour: the conversions of the language (\<^verbatim>\<open>Number\<close>, truthiness,
  \<^verbatim>\<open>split\<close>, \<^verbatim>\<open>trim\<close>), the body parser and router of Express, and the
  five collection operations of the MongoDB driver that the handlers call.
\<close>

subsection \<open>JavaScript values\<close>

text \<open>
  A number is NaN, an infinity or a finite value. Finite values are kept exact: the
  rounding of a decimal literal to the nearest double is not modelled, except that a
  literal beyond the largest double becomes an infinity, as it does in the language.
  Negative zero is identified with zero.
\<close>

datatype num = NaN | NegInf | Fin rat | PosInf

text \<open>An ObjectId is represented by its 24-digit hexadecimal string.\<close>

datatype ObjectId = ObjectId string

text \<open>
  Strings are lists of 8-bit characters (code units below 256). An object is the list of
  its own properties in insertion order. \<^verbatim>\<open>undefined\<close> is not a value of this type:
  a property that may be absent has type \<open>jsval option\<close>.
\<close>

datatype jsval =
    Null
  | Bool bool
  | Num num
  | Str string
  | Arr "jsval list"
  | Obj "(string \<times> jsval) list"
  | Oid ObjectId

type_synonym doc = "(string \<times> jsval) list"

datatype js_error = TypeError | MongoServerError

text \<open>Truthiness, as \<^verbatim>\<open>if (x)\<close> and \<^verbatim>\<open>!x\<close> read a value.\<close>

fun truthy :: "jsval option \<Rightarrow> bool" where
  "truthy None = False"
| "truthy (Some Null) = False"
| "truthy (Some (Bool b)) = b"
| "truthy (Some (Num n)) = (n \<noteq> NaN \<and> n \<noteq> Fin 0)"
| "truthy (Some (Str s)) = (s \<noteq> [])"
| "truthy (Some (Arr _)) = True"
| "truthy (Some (Obj _)) = True"
| "truthy (Some (Oid _)) = True"

subsection \<open>Strings: \<^verbatim>\<open>trim\<close> and \<^verbatim>\<open>split\<close>\<close>

text \<open>
  White space and line terminators below code 256: tab, line feed, vertical tab, form
  feed, carriage return, space and no-break space.
\<close>

definition is_space :: "char \<Rightarrow> bool" where
  "is_space c = ((of_char c :: nat) \<in> set [9, 10, 11, 12, 13, 32, 160])"

definition trim :: "string \<Rightarrow> string" where
  "trim s = rev (dropWhile is_space (rev (dropWhile is_space s)))"

text \<open>\<^verbatim>\<open>s.split(",")\<close>: the empty string gives one empty segment.\<close>

fun split :: "char \<Rightarrow> string \<Rightarrow> string list" where
  "split sep [] = [[]]"
| "split sep (c # cs) =
     (if c = sep then [] # split sep cs
      else (case split sep cs of
              [] \<Rightarrow> [[c]]
            | seg # segs \<Rightarrow> (c # seg) # segs))"

subsection \<open>\<^verbatim>\<open>Number(x)\<close>\<close>

definition is_digit :: "char \<Rightarrow> bool" where
  "is_digit c = (48 \<le> (of_char c :: nat) \<and> (of_char c :: nat) \<le> 57)"

definition hex_val :: "char \<Rightarrow> nat option" where
  "hex_val c =
     (let n = (of_char c :: nat) in
      if 48 \<le> n \<and> n \<le> 57 then Some (n - 48)
      else if 65 \<le> n \<and> n \<le> 70 then Some (n - 55)
      else if 97 \<le> n \<and> n \<le> 102 then Some (n - 87)
      else None)"

text \<open>The value of a digit string in a base; \<open>None\<close> when a character is no digit of it.\<close>

fun digits_val :: "nat \<Rightarrow> nat \<Rightarrow> string \<Rightarrow> nat option" where
  "digits_val base acc [] = Some acc"
| "digits_val base acc (c # cs) =
     (case hex_val c of
        None \<Rightarrow> None
      | Some d \<Rightarrow> if d < base then digits_val base (acc * base + d) cs else None)"

text \<open>
  A mathematical value becomes a number: at and beyond \<open>2^1024 - 2^970\<close> rounding to
  the nearest double gives an infinity.
\<close>

definition round_double :: "rat \<Rightarrow> num" where
  "round_double v =
     (if v \<ge> 2 ^ 1024 - 2 ^ 970 then PosInf
      else if v \<le> - (2 ^ 1024 - 2 ^ 970) then NegInf
      else Fin v)"

text \<open>\<^verbatim>\<open>0x\<close>, \<^verbatim>\<open>0o\<close> and \<^verbatim>\<open>0b\<close> literals: a prefix and at least one digit.\<close>

definition radix_literal :: "string \<Rightarrow> num option" where
  "radix_literal s =
     (case s of
        z # x # ds \<Rightarrow>
          (if z = CHR ''0'' \<and> ds \<noteq> [] then
             (let base = (if x = CHR ''x'' \<or> x = CHR ''X'' then 16
                          else if x = CHR ''o'' \<or> x = CHR ''O'' then 8
                          else if x = CHR ''b'' \<or> x = CHR ''B'' then 2
                          else (0::nat))
              in if base = 0 then None
                 else map_option (\<lambda>n. round_double (of_nat n)) (digits_val base 0 ds))
           else None)
      | _ \<Rightarrow> None)"

text \<open>The exponent part: nothing, or \<^verbatim>\<open>e\<close>, an optional sign and at least one digit.\<close>

definition exponent_part :: "string \<Rightarrow> int option" where
  "exponent_part s =
     (case s of
        [] \<Rightarrow> Some 0
      | e # r \<Rightarrow>
          (if e = CHR ''e'' \<or> e = CHR ''E'' then
             (let neg = (r \<noteq> [] \<and> hd r = CHR ''-'');
                  ds = (if r \<noteq> [] \<and> (hd r = CHR ''-'' \<or> hd r = CHR ''+'') then tl r else r)
              in if ds = [] \<or> \<not> list_all is_digit ds then None
                 else map_option (\<lambda>n. if neg then - int n else int n) (digits_val 10 0 ds))
           else None))"

text \<open>
  An unsigned decimal literal: \<^verbatim>\<open>Infinity\<close>, or digits with an optional fraction and
  exponent, at least one digit before or after the point. The value is positive
  infinity or the exact rational.
\<close>

definition unsigned_decimal :: "string \<Rightarrow> (rat option) option" where
  "unsigned_decimal s =
     (if s = ''Infinity'' then Some None
      else
        (let ip = takeWhile is_digit s;
             r1 = dropWhile is_digit s;
             fp = (if r1 \<noteq> [] \<and> hd r1 = CHR ''.'' then takeWhile is_digit (tl r1) else []);
             r2 = (if r1 \<noteq> [] \<and> hd r1 = CHR ''.'' then dropWhile is_digit (tl r1) else r1)
         in if ip = [] \<and> fp = [] then None
            else (case (digits_val 10 0 (ip @ fp), exponent_part r2) of
                    (Some m, Some e) \<Rightarrow>
                      (let k = e - int (length fp)
                       in Some (Some (if k \<ge> 0 then of_nat m * 10 ^ nat k
                                      else of_nat m / 10 ^ nat (- k))))
                  | _ \<Rightarrow> None)))"

text \<open>
  \<^verbatim>\<open>Number(s)\<close> for a string: white space is trimmed, the empty string is 0, anything
  that is not a numeric literal is NaN.
\<close>

definition str_to_number :: "string \<Rightarrow> num" where
  "str_to_number s =
     (let t = trim s in
      if t = [] then Fin 0
      else (case radix_literal t of
              Some n \<Rightarrow> n
            | None \<Rightarrow>
                (let neg = (hd t = CHR ''-'');
                     u = (if hd t = CHR ''-'' \<or> hd t = CHR ''+'' then tl t else t)
                 in (case unsigned_decimal u of
                       None \<Rightarrow> NaN
                     | Some None \<Rightarrow> if neg then NegInf else PosInf
                     | Some (Some v) \<Rightarrow> round_double (if neg then - v else v)))))"

text \<open>
  Converting an object to a primitive calls its \<^verbatim>\<open>toString\<close>. A parsed JSON object
  with an own property of that name has a value there that cannot be called, and the
  conversion throws; so does the conversion of an array that holds such an object,
  since \<^verbatim>\<open>join\<close> converts every element that is not \<^verbatim>\<open>null\<close>.
\<close>

fun to_primitive_throws :: "jsval \<Rightarrow> bool" where
  "to_primitive_throws (Obj kvs) = (''toString'' \<in> fst ` set kvs)"
| "to_primitive_throws (Arr es) = (\<exists>e \<in> set es. to_primitive_throws e)"
| "to_primitive_throws _ = False"

text \<open>
  \<^verbatim>\<open>Number(x)\<close>. An array is converted through \<^verbatim>\<open>join(",")\<close>: no element gives the
  empty string, one element gives that element's string, more give a string with a
  comma in it, which is no numeric literal. An element that is a number prints as a
  literal that reads back as the same number; a boolean prints as a word.
\<close>

fun to_number :: "jsval \<Rightarrow> num" where
  "to_number Null = Fin 0"
| "to_number (Bool b) = (if b then Fin 1 else Fin 0)"
| "to_number (Num n) = n"
| "to_number (Str s) = str_to_number s"
| "to_number (Arr []) = Fin 0"
| "to_number (Arr [e]) = (case e of Bool _ \<Rightarrow> NaN | _ \<Rightarrow> to_number e)"
| "to_number (Arr (e # e' # es)) = NaN"
| "to_number (Obj kvs) = NaN"
| "to_number (Oid (ObjectId h)) = str_to_number h"

definition Number :: "jsval \<Rightarrow> js_error + num" where
  "Number x = (if to_primitive_throws x then Inl TypeError else Inr (to_number x))"

subsection \<open>The collection\<close>

text \<open>
  The collection is the list of its documents in insertion order; a document is the
  list of its fields, \<^verbatim>\<open>_id\<close> first. The five driver calls of \<^verbatim>\<open>app.js\<close> are
  modelled for top-level field names. A call fails in one case only, an insert whose
  identifier is in the collection already (the unique index on \<^verbatim>\<open>_id\<close>); network
  and server failures are outside the model.
\<close>

type_synonym collection = "doc list"

definition has_id :: "ObjectId \<Rightarrow> doc \<Rightarrow> bool" where
  "has_id oid d = (map_of d ''_id'' = Some (Oid oid))"

text \<open>
  The query object of \<^verbatim>\<open>find\<close>, as the list handler fills it: the value of
  \<^verbatim>\<open>filter.category\<close>, compared for equality, and the bound of
  \<^verbatim>\<open>filter.price = { $gte: mp }\<close>.
\<close>

record find_filter =
  f_category :: "jsval option"
  f_price_gte :: "num option"

text \<open>\<^verbatim>\<open>{ price: 1 }\<close> and \<^verbatim>\<open>{ price: -1 }\<close>.\<close>

datatype sort_spec = PriceAsc | PriceDesc

text \<open>
  \<^verbatim>\<open>options.sort\<close> and \<^verbatim>\<open>options.projection\<close>; a projection is the list of the
  keys that were given the value 1, in the order of their first assignment.
\<close>

record find_options =
  o_sort :: "sort_spec option"
  o_projection :: "string list option"

text \<open>
  Comparison of numbers in the store: NaN equals itself only and is below every other
  number in a sort.
\<close>

fun num_gte :: "num \<Rightarrow> num \<Rightarrow> bool" where
  "num_gte NaN y = (y = NaN)"
| "num_gte x NaN = False"
| "num_gte PosInf y = True"
| "num_gte x PosInf = False"
| "num_gte x NegInf = True"
| "num_gte NegInf y = False"
| "num_gte (Fin a) (Fin b) = (a \<ge> b)"

fun num_le :: "num \<Rightarrow> num \<Rightarrow> bool" where
  "num_le NaN y = True"
| "num_le x NaN = False"
| "num_le x y = num_gte y x"

text \<open>
  A field matches a condition when its value does, or when it is an array one of whose
  elements does. A missing field matches neither of the two conditions used here.
\<close>

definition field_matches :: "(jsval \<Rightarrow> bool) \<Rightarrow> jsval option \<Rightarrow> bool" where
  "field_matches cond fv =
     (case fv of
        None \<Rightarrow> False
      | Some (Arr es) \<Rightarrow> cond (Arr es) \<or> (\<exists>e \<in> set es. cond e)
      | Some v \<Rightarrow> cond v)"

definition is_gte :: "num \<Rightarrow> jsval \<Rightarrow> bool" where
  "is_gte mp v = (case v of Num x \<Rightarrow> num_gte x mp | _ \<Rightarrow> False)"

definition matches :: "find_filter \<Rightarrow> doc \<Rightarrow> bool" where
  "matches f d =
     ((case f_category f of
         None \<Rightarrow> True
       | Some c \<Rightarrow> field_matches (\<lambda>v. v = c) (map_of d ''category''))
      \<and> (case f_price_gte f of
           None \<Rightarrow> True
         | Some mp \<Rightarrow> field_matches (is_gte mp) (map_of d ''price'')))"

text \<open>
  The sort compares values of different types by the bracket of their type (a missing
  field counts as null) and numbers by value. Inside the other brackets, and for
  arrays, the model keeps the order of the collection.
\<close>

fun bracket :: "jsval option \<Rightarrow> nat" where
  "bracket None = 1"
| "bracket (Some Null) = 1"
| "bracket (Some (Num _)) = 2"
| "bracket (Some (Str _)) = 3"
| "bracket (Some (Obj _)) = 4"
| "bracket (Some (Arr _)) = 5"
| "bracket (Some (Oid _)) = 6"
| "bracket (Some (Bool _)) = 7"

definition key_le :: "jsval option \<Rightarrow> jsval option \<Rightarrow> bool" where
  "key_le a b =
     (bracket a < bracket b \<or>
      (bracket a = bracket b \<and>
       (case (a, b) of (Some (Num x), Some (Num y)) \<Rightarrow> num_le x y | _ \<Rightarrow> True)))"

fun insert_by :: "('a \<Rightarrow> 'a \<Rightarrow> bool) \<Rightarrow> 'a \<Rightarrow> 'a list \<Rightarrow> 'a list" where
  "insert_by le x [] = [x]"
| "insert_by le x (y # ys) = (if le x y then x # y # ys else y # insert_by le x ys)"

definition sort_by :: "('a \<Rightarrow> 'a \<Rightarrow> bool) \<Rightarrow> 'a list \<Rightarrow> 'a list" where
  "sort_by le xs = foldr (insert_by le) xs []"

definition apply_sort :: "sort_spec option \<Rightarrow> doc list \<Rightarrow> doc list" where
  "apply_sort s ds =
     (case s of
        None \<Rightarrow> ds
      | Some PriceAsc \<Rightarrow> sort_by (\<lambda>a b. key_le (map_of a ''price'') (map_of b ''price'')) ds
      | Some PriceDesc \<Rightarrow> sort_by (\<lambda>a b. key_le (map_of b ''price'') (map_of a ''price'')) ds)"

text \<open>
  An inclusion projection keeps the named fields and, since it is not excluded,
  \<^verbatim>\<open>_id\<close>. An empty projection object keeps the whole document.
\<close>

definition project :: "string list option \<Rightarrow> doc \<Rightarrow> doc" where
  "project p d =
     (case p of
        None \<Rightarrow> d
      | Some [] \<Rightarrow> d
      | Some ks \<Rightarrow> filter (\<lambda>(k, v). k = ''_id'' \<or> k \<in> set ks) d)"

text \<open>\<^verbatim>\<open>collection.find(filter, options).toArray()\<close>\<close>

definition find_docs :: "collection \<Rightarrow> find_filter \<Rightarrow> find_options \<Rightarrow> doc list" where
  "find_docs coll f opts =
     map (project (o_projection opts)) (apply_sort (o_sort opts) (filter (matches f) coll))"

text \<open>\<^verbatim>\<open>collection.findOne({ _id })\<close>: the document or \<^verbatim>\<open>null\<close>.\<close>

definition findOne :: "collection \<Rightarrow> ObjectId \<Rightarrow> doc option" where
  "findOne coll oid = find (has_id oid) coll"

text \<open>
  \<^verbatim>\<open>collection.insertOne(doc)\<close>: the driver gives the document the identifier it
  generated, here the argument \<open>gen\<close>, and the server stores it with \<^verbatim>\<open>_id\<close> first.
\<close>

definition insertOne :: "ObjectId \<Rightarrow> collection \<Rightarrow> doc \<Rightarrow> js_error + (ObjectId \<times> collection)" where
  "insertOne gen coll d =
     (if \<exists>x \<in> set coll. has_id gen x then Inl MongoServerError
      else Inr (gen, coll @ [(''_id'', Oid gen) # d]))"

text \<open>\<^verbatim>\<open>$set\<close>: each field of the update replaces the field of that name or is added last.\<close>

definition apply_set :: "doc \<Rightarrow> doc \<Rightarrow> doc" where
  "apply_set upd d = foldl (\<lambda>acc (k, v). AList.update k v acc) d upd"

fun update_first :: "ObjectId \<Rightarrow> doc \<Rightarrow> collection \<Rightarrow> collection" where
  "update_first oid upd [] = []"
| "update_first oid upd (d # ds) =
     (if has_id oid d then apply_set upd d # ds else d # update_first oid upd ds)"

text \<open>
  \<^verbatim>\<open>collection.findOneAndUpdate({ _id }, { $set: update }, { returnDocument: "after" })\<close>:
  the result object, of which the handler reads the property \<^verbatim>\<open>value\<close>, holds the
  document after the update, or \<^verbatim>\<open>null\<close> when none has the identifier.
\<close>

definition findOneAndUpdate :: "collection \<Rightarrow> ObjectId \<Rightarrow> doc \<Rightarrow> doc option \<times> collection" where
  "findOneAndUpdate coll oid upd =
     (map_option (apply_set upd) (find (has_id oid) coll), update_first oid upd coll)"

fun remove_first :: "ObjectId \<Rightarrow> collection \<Rightarrow> collection" where
  "remove_first oid [] = []"
| "remove_first oid (d # ds) = (if has_id oid d then ds else d # remove_first oid ds)"

text \<open>\<^verbatim>\<open>collection.deleteOne({ _id })\<close>: \<^verbatim>\<open>deletedCount\<close> and the collection left.\<close>

definition deleteOne :: "collection \<Rightarrow> ObjectId \<Rightarrow> nat \<times> collection" where
  "deleteOne coll oid =
     (if \<exists>d \<in> set coll. has_id oid d then (1, remove_first oid coll) else (0, coll))"

subsection \<open>Requests and responses\<close>

text \<open>
  \<^verbatim>\<open>ObjectId.isValid\<close> and the constructor \<^verbatim>\<open>new ObjectId\<close> belong to the driver and
  differ between its versions; the handlers take them as a parameter.
\<close>

record driver =
  isValid :: "string \<Rightarrow> bool"
  new_ObjectId :: "string \<Rightarrow> ObjectId"

text \<open>
  A response is a status and what was passed to \<^verbatim>\<open>res.json\<close>, or the error page that
  Express itself sends when a middleware fails.
\<close>

datatype content = Json jsval | ErrorPage

record response =
  status :: nat
  content :: content

definition json_reply :: "nat \<Rightarrow> jsval \<Rightarrow> response" where
  "json_reply code v = \<lparr>status = code, content = Json v\<rparr>"

definition error_reply :: "nat \<Rightarrow> string \<Rightarrow> response" where
  "error_reply code msg = json_reply code (Obj [(''error'', Str msg)])"

text \<open>The \<^verbatim>\<open>catch\<close> block of every handler.\<close>

definition server_error :: response where
  "server_error = error_reply 500 ''Server error''"

text \<open>
  A handler runs up to its one \<^verbatim>\<open>await\<close>: it has answered by then, or it waits for
  the collection with the arguments of the call.
\<close>

datatype 'a outcome = Done response | Await 'a

subsection \<open>The handlers\<close>

text \<open>
  \<^verbatim>\<open>projection[f] = 1\<close> for a plain object: a new key is added, a key that is there
  stays; the name \<^verbatim>\<open>__proto__\<close> is the prototype accessor, and assigning a number to
  it adds no key.
\<close>

definition assign_key :: "string list \<Rightarrow> string \<Rightarrow> string list" where
  "assign_key p f = (if f = ''__proto__'' \<or> f \<in> set p then p else p @ [f])"

text \<open>
  A query parameter that occurs once in the query string is a string; one that occurs
  several times reaches the handler as the array of its values.
\<close>

datatype qval = QStr string | QArr "string list"

fun js_of :: "qval \<Rightarrow> jsval" where
  "js_of (QStr s) = Str s"
| "js_of (QArr ss) = Arr (map Str ss)"

text \<open>
  \<^verbatim>\<open>app.get("/api/products")\<close> up to the call of \<^verbatim>\<open>find\<close>. An array has no
  method \<^verbatim>\<open>split\<close>: for an array \<^verbatim>\<open>fields.split(",")\<close> throws, and the
  \<^verbatim>\<open>catch\<close> block answers.
\<close>

definition get_products :: "(string \<rightharpoonup> qval) \<Rightarrow> (find_filter \<times> find_options) outcome" where
  \<open>get_products query =
     (let category = map_option js_of (query ''category'');
          minPrice = map_option js_of (query ''minPrice'');
          sort = map_option js_of (query ''sort'');
          fields = map_option js_of (query ''fields'');
          filter1 = \<lparr>f_category = (if truthy category then category else None),
                     f_price_gte = None\<rparr>
      in case (case minPrice of
                 None \<Rightarrow> Inr filter1
               | Some v \<Rightarrow>
                   (case Number v of
                      Inl e \<Rightarrow> Inl server_error
                    | Inr mp \<Rightarrow>
                        if mp = NaN then Inl (error_reply 400 ''minPrice must be a number'')
                        else Inr (filter1\<lparr>f_price_gte := Some mp\<rparr>))) of
           Inl r \<Rightarrow> Done r
         | Inr filter2 \<Rightarrow>
             (case (if truthy sort then
                      (if sort = Some (Str ''price'') then Inr (Some PriceAsc)
                       else if sort = Some (Str ''-price'') then Inr (Some PriceDesc)
                       else Inl (error_reply 400 ''sort must be "price" or "-price"''))
                    else Inr None) of
                Inl r \<Rightarrow> Done r
              | Inr so \<Rightarrow>
                  (case (if truthy fields then
                           (case fields of
                              Some (Str fs) \<Rightarrow>
                                Inr (Some (foldl assign_key []
                                       (filter (\<lambda>f. f \<noteq> []) (map trim (split CHR '','' fs)))))
                            | _ \<Rightarrow> Inl server_error)
                         else Inr None) of
                     Inl r \<Rightarrow> Done r
                   | Inr projection \<Rightarrow>
                       Await (filter2, \<lparr>o_sort = so, o_projection = projection\<rparr>))))\<close>

text \<open>The rest of the handler: the array that \<^verbatim>\<open>find\<close> gave, or its failure.\<close>

definition get_products_reply :: "js_error + doc list \<Rightarrow> response" where
  "get_products_reply r =
     (case r of
        Inl e \<Rightarrow> server_error
      | Inr products \<Rightarrow>
          json_reply 200 (Obj [(''count'', Num (Fin (of_nat (length products)))),
                               (''products'', Arr (map Obj products))]))"

text \<open>\<^verbatim>\<open>app.get("/api/products/:id")\<close>\<close>

definition get_product :: "driver \<Rightarrow> string \<Rightarrow> ObjectId outcome" where
  "get_product drv id' =
     (if \<not> isValid drv id' then Done (error_reply 400 ''Invalid id'')
      else Await (new_ObjectId drv id'))"

definition get_product_reply :: "js_error + doc option \<Rightarrow> response" where
  "get_product_reply r =
     (case r of
        Inl e \<Rightarrow> server_error
      | Inr None \<Rightarrow> error_reply 404 ''Not found''
      | Inr (Some product) \<Rightarrow> json_reply 200 (Obj product))"

text \<open>
  \<^verbatim>\<open>app.post("/api/products")\<close>. The body is the parsed JSON object, read at the three
  property names.
\<close>

definition post_product :: "(string \<rightharpoonup> jsval) \<Rightarrow> doc outcome" where
  "post_product body =
     (let name = body ''name''; price = body ''price''; category = body ''category''
      in if \<not> truthy name \<or> price = None \<or> \<not> truthy category then
           Done (error_reply 400 ''Missing required fields: name, price, category'')
         else
           (case Number (the price) of
              Inl e \<Rightarrow> Done server_error
            | Inr p \<Rightarrow>
                if p = NaN then Done (error_reply 400 ''price must be a number'')
                else Await [(''name'', the name), (''price'', Num p), (''category'', the category)]))"

definition post_product_reply :: "js_error + ObjectId \<Rightarrow> response" where
  "post_product_reply r =
     (case r of
        Inl e \<Rightarrow> server_error
      | Inr insertedId \<Rightarrow>
          json_reply 201 (Obj [(''message'', Str ''Product created''), (''id'', Oid insertedId)]))"

text \<open>\<^verbatim>\<open>app.put("/api/products/:id")\<close>\<close>

definition put_product :: "driver \<Rightarrow> string \<Rightarrow> (string \<rightharpoonup> jsval) \<Rightarrow> (ObjectId \<times> doc) outcome" where
  "put_product drv id' body =
     (if \<not> isValid drv id' then Done (error_reply 400 ''Invalid id'')
      else
        (let name = body ''name''; price = body ''price''; category = body ''category''
         in if name = None \<and> price = None \<and> category = None then
              Done (error_reply 400 ''Provide at least one field: name, price, category'')
            else
              (let update1 = (case name of None \<Rightarrow> [] | Some n \<Rightarrow> AList.update ''name'' n []);
                   update2 = (case category of
                                None \<Rightarrow> update1
                              | Some c \<Rightarrow> AList.update ''category'' c update1)
               in case price of
                    None \<Rightarrow> Await (new_ObjectId drv id', update2)
                  | Some pr \<Rightarrow>
                      (case Number pr of
                         Inl e \<Rightarrow> Done server_error
                       | Inr p \<Rightarrow>
                           if p = NaN then Done (error_reply 400 ''price must be a number'')
                           else Await (new_ObjectId drv id',
                                       AList.update ''price'' (Num p) update2)))))"

text \<open>The argument is \<^verbatim>\<open>result.value\<close>.\<close>

definition put_product_reply :: "js_error + doc option \<Rightarrow> response" where
  "put_product_reply r =
     (case r of
        Inl e \<Rightarrow> server_error
      | Inr v \<Rightarrow>
          if \<not> truthy (map_option Obj v) then error_reply 404 ''Not found''
          else json_reply 200 (Obj [(''message'', Str ''Product updated''),
                                    (''product'', Obj (the v))]))"

text \<open>\<^verbatim>\<open>app.delete("/api/products/:id")\<close>; the reply reads \<^verbatim>\<open>result.deletedCount\<close>.\<close>

definition delete_product :: "driver \<Rightarrow> string \<Rightarrow> ObjectId outcome" where
  "delete_product drv id' =
     (if \<not> isValid drv id' then Done (error_reply 400 ''Invalid id'')
      else Await (new_ObjectId drv id'))"

definition delete_product_reply :: "js_error + nat \<Rightarrow> response" where
  "delete_product_reply r =
     (case r of
        Inl e \<Rightarrow> server_error
      | Inr deletedCount \<Rightarrow>
          if deletedCount = 0 then error_reply 404 ''Not found''
          else json_reply 200 (Obj [(''message'', Str ''Product deleted'')]))"

subsection \<open>The application\<close>

text \<open>
  A request as the middleware chain sees it: the method, the route that the path
  matches, the query parameters, and what \<^verbatim>\<open>express.json()\<close> made of the body: the
  parsed object (the empty object when there is no JSON body), or a failure to parse.
\<close>

datatype http_method = GET | HEAD | POST | PUT | DELETE | PATCH

datatype route = Root | Products | Product string | Elsewhere

datatype req_body = Malformed | Parsed "string \<rightharpoonup> jsval"

record request =
  req_method :: http_method
  route :: route
  query :: "string \<rightharpoonup> qval"
  body :: req_body

text \<open>
  The routes, reached once the collection is there. Express sends a \<^verbatim>\<open>HEAD\<close> request
  to the \<^verbatim>\<open>get\<close> handler of its path. \<open>gen\<close> is the identifier that the driver
  generates if this request inserts.
\<close>

definition routes :: "driver \<Rightarrow> ObjectId \<Rightarrow> collection \<Rightarrow> request \<Rightarrow> (string \<rightharpoonup> jsval) \<Rightarrow> response \<times> collection" where
  "routes drv gen coll req b =
     (let m = (if req_method req = HEAD then GET else req_method req)
      in case (m, route req) of
           (GET, Root) \<Rightarrow>
             (json_reply 200 (Obj [(''links'', Arr [Str ''/api/products'', Str ''/api/products/:id''])]),
              coll)
         | (GET, Products) \<Rightarrow>
             (case get_products (query req) of
                Done r \<Rightarrow> (r, coll)
              | Await (f, opts) \<Rightarrow> (get_products_reply (Inr (find_docs coll f opts)), coll))
         | (GET, Product id') \<Rightarrow>
             (case get_product drv id' of
                Done r \<Rightarrow> (r, coll)
              | Await oid \<Rightarrow> (get_product_reply (Inr (findOne coll oid)), coll))
         | (POST, Products) \<Rightarrow>
             (case post_product b of
                Done r \<Rightarrow> (r, coll)
              | Await d \<Rightarrow>
                  (case insertOne gen coll d of
                     Inl e \<Rightarrow> (post_product_reply (Inl e), coll)
                   | Inr (insertedId, coll') \<Rightarrow> (post_product_reply (Inr insertedId), coll')))
         | (PUT, Product id') \<Rightarrow>
             (case put_product drv id' b of
                Done r \<Rightarrow> (r, coll)
              | Await (oid, upd) \<Rightarrow>
                  (case findOneAndUpdate coll oid upd of
                     (v, coll') \<Rightarrow> (put_product_reply (Inr v), coll')))
         | (DELETE, Product id') \<Rightarrow>
             (case delete_product drv id' of
                Done r \<Rightarrow> (r, coll)
              | Await oid \<Rightarrow>
                  (case deleteOne coll oid of
                     (n, coll') \<Rightarrow> (delete_product_reply (Inr n), coll')))
         | _ \<Rightarrow> (error_reply 404 ''API endpoint not found'', coll))"

text \<open>
  The middleware chain. The state is the variable \<^verbatim>\<open>productsCollection\<close>:
  \<open>None\<close> until the connection is made. The logger writes to the console only.
  \<^verbatim>\<open>express.json()\<close> comes next; when the body does not parse it passes an error
  of status 400 on, the remaining middleware is skipped and Express sends its error
  page. Then comes the readiness check, then the routes.
\<close>

definition serve :: "driver \<Rightarrow> ObjectId \<Rightarrow> collection option \<Rightarrow> request \<Rightarrow> response \<times> collection option" where
  "serve drv gen productsCollection req =
     (case body req of
        Malformed \<Rightarrow> (\<lparr>status = 400, content = ErrorPage\<rparr>, productsCollection)
      | Parsed b \<Rightarrow>
          (case productsCollection of
             None \<Rightarrow>
               (error_reply 503 ''Database not ready yet. Try again in a moment.'', None)
           | Some coll \<Rightarrow>
               (case routes drv gen coll req b of (r, coll') \<Rightarrow> (r, Some coll'))))"

text \<open>
  A driver for the examples: an identifier is valid when it is 24 hexadecimal digits,
  and names the ObjectId with these digits in lower case.
\<close>

definition lower_hex :: "char \<Rightarrow> char" where
  "lower_hex c =
     (if 65 \<le> (of_char c :: nat) \<and> (of_char c :: nat) \<le> 70 then char_of ((of_char c :: nat) + 32)
      else c)"

definition hex_driver :: driver where
  "hex_driver =
     \<lparr>isValid = (\<lambda>s. length s = 24 \<and> list_all (\<lambda>c. hex_val c \<noteq> None) s),
      new_ObjectId = (\<lambda>s. ObjectId (map lower_hex s))\<rparr>"

subsection \<open>Properties of the collection, and example data\<close>

text \<open>
  The store's index on \<^verbatim>\<open>_id\<close> keeps identifiers unique: no two documents of a
  collection have the same one.
\<close>

definition unique_ids :: "collection \<Rightarrow> bool" where
  "unique_ids coll = distinct (map (\<lambda>d. map_of d ''_id'') coll)"

text \<open>
  What the validators of \<^verbatim>\<open>app.js\<close> establish for a product: the four fields are
  there, and the price is a number other than NaN.
\<close>

definition product_ok :: "doc \<Rightarrow> bool" where
  "product_ok d =
     (map_of d ''_id'' \<noteq> None \<and> map_of d ''name'' \<noteq> None \<and> map_of d ''category'' \<noteq> None
      \<and> (case map_of d ''price'' of Some (Num n) \<Rightarrow> n \<noteq> NaN | _ \<Rightarrow> False))"

definition product :: "string \<Rightarrow> string \<Rightarrow> rat \<Rightarrow> string \<Rightarrow> doc" where
  "product i n p c =
     [(''_id'', Oid (ObjectId i)), (''name'', Str n), (''price'', Num (Fin p)),
      (''category'', Str c)]"

definition id1 :: string where "id1 = ''0123456789abcdef00000001''"
definition id2 :: string where "id2 = ''0123456789abcdef00000002''"
definition id3 :: string where "id3 = ''0123456789abcdef00000003''"
definition id4 :: string where "id4 = ''0123456789abcdef00000004''"

text \<open>Three products priced 5, 10 and 15.\<close>

definition three_products :: collection where
  "three_products =
     [product id1 ''pen'' 5 ''office'', product id2 ''mug'' 10 ''kitchen'',
      product id3 ''lamp'' 15 ''office'']"

definition list_request :: "(string \<rightharpoonup> qval) \<Rightarrow> request" where
  "list_request q = \<lparr>req_method = GET, route = Products, query = q, body = Parsed Map.empty\<rparr>"

definition item_request :: "http_method \<Rightarrow> string \<Rightarrow> (string \<rightharpoonup> jsval) \<Rightarrow> request" where
  "item_request m i b = \<lparr>req_method = m, route = Product i, query = Map.empty, body = Parsed b\<rparr>"

definition create_request :: "(string \<rightharpoonup> jsval) \<Rightarrow> request" where
  "create_request b = \<lparr>req_method = POST, route = Products, query = Map.empty, body = Parsed b\<rparr>"

section \<open>Verification\<close>

subsection \<open>Evaluation and routing\<close>

lemmas reply_defs = json_reply_def error_reply_def server_error_def

lemmas number_defs = str_to_number_def trim_def is_space_def radix_literal_def
  unsigned_decimal_def is_digit_def hex_val_def exponent_part_def round_double_def

lemmas example_defs = product_def id1_def id2_def id3_def id4_def three_products_def
  list_request_def item_request_def create_request_def hex_driver_def lower_hex_def

lemma serve_ready:
  "body req = Parsed b \<Longrightarrow>
   serve drv gen (Some coll) req =
     (fst (routes drv gen coll req b), Some (snd (routes drv gen coll req b)))"
  by (simp add: serve_def split: prod.splits)

lemma routes_list:
  "req_method req = GET \<Longrightarrow> route req = Products \<Longrightarrow>
   routes drv gen coll req b =
     (case get_products (query req) of
        Done r \<Rightarrow> (r, coll)
      | Await (f, opts) \<Rightarrow> (get_products_reply (Inr (find_docs coll f opts)), coll))"
  by (simp add: routes_def)

lemma Number_Str: "Number (Str s) = Inr (str_to_number s)"
  by (simp add: Number_def)

lemma Number_js_of: "Number (js_of v) = Inr (to_number (js_of v))"
  by (cases v) (auto simp: Number_def)

lemma truthy_js_of: "truthy (Some (js_of v)) = (v \<noteq> QStr [])"
  by (cases v) auto

lemma js_of_eq_Str: "js_of v = Str s \<longleftrightarrow> v = QStr s"
  by (cases v) auto

lemma set_insert_by: "set (insert_by le x ys) = insert x (set ys)"
  by (induction ys) auto

lemma set_sort_by: "set (sort_by le xs) = set xs"
  by (induction xs) (simp_all add: sort_by_def set_insert_by)

lemma set_apply_sort: "set (apply_sort s ds) = set ds"
  by (simp add: apply_sort_def set_sort_by split: option.splits sort_spec.splits)

lemma set_find_docs:
  "set (find_docs coll f opts) = project (o_projection opts) ` {d \<in> set coll. matches f d}"
  by (simp add: find_docs_def set_apply_sort)

text \<open>The list handler as one chain of tests on the query parameters.\<close>

lemma get_products_chain:
  \<open>get_products q =
     (if \<exists>v. q ''minPrice'' = Some v \<and> to_number (js_of v) = NaN then
        Done (error_reply 400 ''minPrice must be a number'')
      else if \<exists>v. q ''sort'' = Some v \<and> v \<noteq> QStr [] \<and> v \<noteq> QStr ''price''
                   \<and> v \<noteq> QStr ''-price'' then
        Done (error_reply 400 ''sort must be "price" or "-price"'')
      else if \<exists>ss. q ''fields'' = Some (QArr ss) then Done server_error
      else
        Await
          (\<lparr>f_category = (if truthy (map_option js_of (q ''category''))
                           then map_option js_of (q ''category'') else None),
            f_price_gte = map_option (\<lambda>v. to_number (js_of v)) (q ''minPrice'')\<rparr>,
           \<lparr>o_sort = (if q ''sort'' = Some (QStr ''price'') then Some PriceAsc
                      else if q ''sort'' = Some (QStr ''-price'') then Some PriceDesc
                      else None),
            o_projection =
              (case q ''fields'' of
                 Some (QStr fs) \<Rightarrow>
                   if fs = [] then None
                   else Some (foldl assign_key []
                          (filter (\<lambda>f. f \<noteq> []) (map trim (split CHR '','' fs))))
               | _ \<Rightarrow> None)\<rparr>))\<close>
proof -
  have sort_part:
    \<open>(if truthy (map_option js_of (q ''sort'')) then
        (if map_option js_of (q ''sort'') = Some (Str ''price'') then Inr (Some PriceAsc)
         else if map_option js_of (q ''sort'') = Some (Str ''-price'') then Inr (Some PriceDesc)
         else Inl (error_reply 400 ''sort must be "price" or "-price"''))
      else Inr None)
     = (if \<exists>v. q ''sort'' = Some v \<and> v \<noteq> QStr [] \<and> v \<noteq> QStr ''price''
                 \<and> v \<noteq> QStr ''-price''
        then Inl (error_reply 400 ''sort must be "price" or "-price"'')
        else Inr (if q ''sort'' = Some (QStr ''price'') then Some PriceAsc
                  else if q ''sort'' = Some (QStr ''-price'') then Some PriceDesc
                  else None))\<close>
    by (cases "q ''sort''") (auto simp: truthy_js_of js_of_eq_Str)
  have fields_part:
    "(if truthy (map_option js_of (q ''fields'')) then
        (case map_option js_of (q ''fields'') of
           Some (Str fs) \<Rightarrow>
             Inr (Some (foldl assign_key []
                    (filter (\<lambda>f. f \<noteq> []) (map trim (split CHR '','' fs)))))
         | _ \<Rightarrow> Inl server_error)
      else Inr None)
     = (if \<exists>ss. q ''fields'' = Some (QArr ss) then Inl server_error
        else Inr (case q ''fields'' of
                    Some (QStr fs) \<Rightarrow>
                      if fs = [] then None
                      else Some (foldl assign_key []
                             (filter (\<lambda>f. f \<noteq> []) (map trim (split CHR '','' fs))))
                  | _ \<Rightarrow> None))"
  proof (cases "q ''fields''")
    case None
    then show ?thesis by simp
  next
    case (Some v)
    then show ?thesis by (cases v) auto
  qed
  show ?thesis
    unfolding get_products_def Let_def sort_part fields_part
    by (cases "q ''minPrice''") (auto simp: Number_js_of)
qed

lemma get_products_Done_status:
  "get_products q = Done r \<Longrightarrow> status r = 400 \<or> status r = 500"
  unfolding get_products_chain by (auto simp: reply_defs split: if_splits)

lemma get_products_Await:
  assumes "get_products q = Await (f, opts)"
  shows "f_category f = (if truthy (map_option js_of (q ''category''))
                         then map_option js_of (q ''category'') else None)"
    and "f_price_gte f = map_option (\<lambda>v. to_number (js_of v)) (q ''minPrice'')"
    and "o_sort opts = (if q ''sort'' = Some (QStr ''price'') then Some PriceAsc
                        else if q ''sort'' = Some (QStr ''-price'') then Some PriceDesc
                        else None)"
    and "o_projection opts =
           (case q ''fields'' of
              Some (QStr fs) \<Rightarrow>
                if fs = [] then None
                else Some (foldl assign_key []
                       (filter (\<lambda>f. f \<noteq> []) (map trim (split CHR '','' fs))))
            | _ \<Rightarrow> None)"
  using assms unfolding get_products_chain by (auto split: if_splits)

lemma get_products_accepts:
  assumes "q ''minPrice'' = None \<or> (\<exists>m. q ''minPrice'' = Some m \<and> to_number (js_of m) \<noteq> NaN)"
    and "q ''sort'' = None \<or> q ''sort'' = Some (QStr []) \<or> q ''sort'' = Some (QStr ''price'')
         \<or> q ''sort'' = Some (QStr ''-price'')"
    and "q ''fields'' = None \<or> (\<exists>fs. q ''fields'' = Some (QStr fs))"
  shows "\<exists>f opts. get_products q = Await (f, opts)"
  using assms unfolding get_products_chain by auto

lemma get_products_bad_min_price:
  "q ''minPrice'' = Some m \<Longrightarrow> to_number (js_of m) = NaN \<Longrightarrow>
   get_products q = Done (error_reply 400 ''minPrice must be a number'')"
  unfolding get_products_chain by simp

lemma get_products_bad_sort:
  \<open>q ''sort'' = Some v \<Longrightarrow> v \<noteq> QStr [] \<Longrightarrow> v \<noteq> QStr ''price'' \<Longrightarrow> v \<noteq> QStr ''-price'' \<Longrightarrow>
   get_products q = Done (error_reply 400 ''minPrice must be a number'')
   \<or> get_products q = Done (error_reply 400 ''sort must be "price" or "-price"'')\<close>
  unfolding get_products_chain by simp

lemma serve_list:
  assumes "req_method req = GET" and "route req = Products" and "body req = Parsed b"
  shows "get_products (query req) = Done r \<Longrightarrow> serve drv gen (Some coll) req = (r, Some coll)"
    and "get_products (query req) = Await (f, opts) \<Longrightarrow>
         serve drv gen (Some coll) req =
           (json_reply 200 (Obj [(''count'', Num (Fin (of_nat (length (find_docs coll f opts))))),
                                 (''products'', Arr (map Obj (find_docs coll f opts)))]),
            Some coll)"
  using assms by (simp_all add: serve_ready routes_list get_products_reply_def)

subsection \<open>The list response\<close>

text \<open>
  C10. Whenever \<^verbatim>\<open>GET /api/products\<close> is answered with status 200, the body is
  \<^verbatim>\<open>{count, products}\<close> and \<^verbatim>\<open>count\<close> is the number of elements of the array
  \<^verbatim>\<open>products\<close>.
\<close>

theorem list_count_matches_products:
  assumes "req_method req = GET" and "route req = Products"
    and "status (fst (serve drv gen st req)) = 200"
  shows "\<exists>products. content (fst (serve drv gen st req)) =
           Json (Obj [(''count'', Num (Fin (of_nat (length products)))),
                      (''products'', Arr (map Obj products))])"
proof -
  from assms(3) obtain b coll where b: "body req = Parsed b" and st: "st = Some coll"
    by (auto simp: serve_def reply_defs split: req_body.splits option.splits)
  show ?thesis
  proof (cases "get_products (query req)")
    case (Done r')
    with assms b st have "status r' = 200"
      by (simp add: serve_ready routes_list)
    with Done get_products_Done_status show ?thesis by fastforce
  next
    case (Await a)
    then show ?thesis
      using assms(1,2) b st
      by (cases a) (auto simp: serve_ready routes_list get_products_reply_def json_reply_def)
  qed
qed

theorem list_count_matches_products_witness:
  "status (fst (serve hex_driver (ObjectId id4) (Some three_products) (list_request Map.empty))) = 200
   \<and> (\<exists>products.
        content (fst (serve hex_driver (ObjectId id4) (Some three_products) (list_request Map.empty))) =
          Json (Obj [(''count'', Num (Fin (of_nat (length products)))),
                     (''products'', Arr (map Obj products))]))"
proof -
  have m: "req_method (list_request Map.empty) = GET" and r: "route (list_request Map.empty) = Products"
    by (simp_all add: list_request_def)
  have s: "status (fst (serve hex_driver (ObjectId id4) (Some three_products)
             (list_request Map.empty))) = 200"
    by (simp add: serve_def routes_def get_products_def get_products_reply_def reply_defs
        list_request_def)
  from list_count_matches_products [OF m r s] s show ?thesis by simp
qed

subsection \<open>The readiness check\<close>

text \<open>
  C9, as the claim states it, fails: a request whose JSON body does not parse is
  answered by the body parser, which is registered before the readiness check, with
  status 400 and not 503, also while the collection is not there.
\<close>

theorem not_ready_malformed_body_counterexample:
  "fst (serve hex_driver (ObjectId id4) None
          \<lparr>req_method = POST, route = Products, query = Map.empty, body = Malformed\<rparr>)
   = \<lparr>status = 400, content = ErrorPage\<rparr>"
  by (simp add: serve_def)

text \<open>
  C9, amended. While \<^verbatim>\<open>productsCollection\<close> is not set, every request whose body the
  body parser accepts is answered with status 503 and the body
  \<^verbatim>\<open>{error: "Database not ready yet. Try again in a moment."}\<close>, whatever its method
  and route; a request whose body does not parse is answered with status 400 by the
  parser. In both cases no route runs and the state stays as it is.
\<close>

theorem not_ready_gate:
  "serve drv gen None req =
     (if body req = Malformed then \<lparr>status = 400, content = ErrorPage\<rparr>
      else \<lparr>status = 503,
            content = Json (Obj [(''error'', Str ''Database not ready yet. Try again in a moment.'')])\<rparr>,
      None)"
  by (simp add: serve_def reply_defs split: req_body.splits)

theorem not_ready_gate_witness:
  "serve hex_driver (ObjectId id4) None (item_request DELETE id1 Map.empty) =
     (\<lparr>status = 503,
       content = Json (Obj [(''error'', Str ''Database not ready yet. Try again in a moment.'')])\<rparr>,
      None)"
  using not_ready_gate [of hex_driver "ObjectId id4" "item_request DELETE id1 Map.empty"]
  by (simp add: item_request_def)

subsection \<open>The query parameter \<^verbatim>\<open>sort\<close>\<close>

text \<open>
  C8, as the claim states it, fails: \<^verbatim>\<open>?sort=\<close> gives the parameter the empty
  string, which is neither of the two accepted values, and the request is answered
  with status 200 and the unsorted list.
\<close>

theorem empty_sort_counterexample:
  "query (list_request [''sort'' \<mapsto> QStr '''']) ''sort'' = Some (QStr '''')
   \<and> fst (serve hex_driver (ObjectId id4) (Some three_products)
            (list_request [''sort'' \<mapsto> QStr '''']))
     = json_reply 200 (Obj [(''count'', Num (Fin 3)), (''products'', Arr (map Obj three_products))])"
  by (simp add: serve_def routes_def get_products_chain get_products_reply_def reply_defs
        list_request_def find_docs_def apply_sort_def project_def matches_def three_products_def)

text \<open>
  C8, amended. For \<^verbatim>\<open>GET /api/products\<close>: a \<^verbatim>\<open>sort\<close> parameter that is not the
  empty string and is neither \<^verbatim>\<open>price\<close> nor \<^verbatim>\<open>-price\<close> is answered with status
  400 before the collection is called; whenever the collection is called, the sort
  specification is ascending by price for \<^verbatim>\<open>price\<close>, descending for \<^verbatim>\<open>-price\<close>,
  and there is none when the parameter is absent or empty; and with one of these four,
  a \<^verbatim>\<open>minPrice\<close> that is absent or a number, and a \<^verbatim>\<open>fields\<close> that is absent or
  a string, the collection is called.
\<close>

theorem sort_parameter:
  assumes "req_method req = GET" and "route req = Products" and "body req = Parsed b"
  shows "(\<forall>v. query req ''sort'' = Some v \<and> v \<noteq> QStr [] \<and> v \<noteq> QStr ''price''
              \<and> v \<noteq> QStr ''-price'' \<longrightarrow>
            (\<exists>r. get_products (query req) = Done r \<and> status r = 400
                  \<and> serve drv gen (Some coll) req = (r, Some coll)))
       \<and> (\<forall>f opts. get_products (query req) = Await (f, opts) \<longrightarrow>
            o_sort opts = (if query req ''sort'' = Some (QStr ''price'') then Some PriceAsc
                           else if query req ''sort'' = Some (QStr ''-price'') then Some PriceDesc
                           else None))
       \<and> ((query req ''minPrice'' = None
            \<or> (\<exists>m. query req ''minPrice'' = Some m \<and> to_number (js_of m) \<noteq> NaN))
           \<and> (query req ''sort'' = None \<or> query req ''sort'' = Some (QStr [])
               \<or> query req ''sort'' = Some (QStr ''price'')
               \<or> query req ''sort'' = Some (QStr ''-price''))
           \<and> (query req ''fields'' = None \<or> (\<exists>fs. query req ''fields'' = Some (QStr fs))) \<longrightarrow>
            (\<exists>f opts. get_products (query req) = Await (f, opts)))"
proof (intro conjI allI impI)
  fix v
  assume s: "query req ''sort'' = Some v \<and> v \<noteq> QStr [] \<and> v \<noteq> QStr ''price''
             \<and> v \<noteq> QStr ''-price''"
  then obtain r where r: "get_products (query req) = Done r" and "status r = 400"
    using get_products_bad_sort [of "query req" v] by (auto simp: reply_defs)
  moreover have "serve drv gen (Some coll) req = (r, Some coll)"
    using serve_list(1) [OF assms r] .
  ultimately show "\<exists>r. get_products (query req) = Done r \<and> status r = 400
                       \<and> serve drv gen (Some coll) req = (r, Some coll)"
    by blast
next
  fix f opts
  assume "get_products (query req) = Await (f, opts)"
  then show "o_sort opts = (if query req ''sort'' = Some (QStr ''price'') then Some PriceAsc
                           else if query req ''sort'' = Some (QStr ''-price'') then Some PriceDesc
                           else None)"
    by (rule get_products_Await(3))
next
  assume "(query req ''minPrice'' = None
            \<or> (\<exists>m. query req ''minPrice'' = Some m \<and> to_number (js_of m) \<noteq> NaN))
           \<and> (query req ''sort'' = None \<or> query req ''sort'' = Some (QStr [])
               \<or> query req ''sort'' = Some (QStr ''price'')
               \<or> query req ''sort'' = Some (QStr ''-price''))
           \<and> (query req ''fields'' = None \<or> (\<exists>fs. query req ''fields'' = Some (QStr fs)))"
  then show "\<exists>f opts. get_products (query req) = Await (f, opts)"
    using get_products_accepts [of "query req"] by blast
qed

theorem sort_parameter_witness:
  "(\<exists>f opts. get_products [''sort'' \<mapsto> QStr ''-price''] = Await (f, opts)
        \<and> o_sort opts = Some PriceDesc)
   \<and> (\<exists>r. get_products [''sort'' \<mapsto> QStr ''cheap''] = Done r \<and> status r = 400
          \<and> serve hex_driver (ObjectId id4) (Some three_products)
               (list_request [''sort'' \<mapsto> QStr ''cheap'']) = (r, Some three_products))"
proof -
  have 1: "req_method (list_request q) = GET" "route (list_request q) = Products"
    "body (list_request q) = Parsed Map.empty" "query (list_request q) = q" for q
    by (simp_all add: list_request_def)
  note a = sort_parameter [OF 1(1-3), of "[''sort'' \<mapsto> QStr ''-price'']" hex_driver
      "ObjectId id4" three_products]
  note b = sort_parameter [OF 1(1-3), of "[''sort'' \<mapsto> QStr ''cheap'']" hex_driver
      "ObjectId id4" three_products]
  from a have "\<exists>f opts. get_products [''sort'' \<mapsto> QStr ''-price''] = Await (f, opts)"
    by (simp add: 1)
  with a have A: "\<exists>f opts. get_products [''sort'' \<mapsto> QStr ''-price''] = Await (f, opts)
      \<and> o_sort opts = Some PriceDesc"
    by (auto simp: 1)
  from b have B: "\<exists>r. get_products [''sort'' \<mapsto> QStr ''cheap''] = Done r \<and> status r = 400
          \<and> serve hex_driver (ObjectId id4) (Some three_products)
               (list_request [''sort'' \<mapsto> QStr ''cheap'']) = (r, Some three_products)"
    by (simp add: 1)
  from A B show ?thesis by blast
qed

lemma field_matches_Num: "field_matches (is_gte mp) (Some (Num x)) = num_gte x mp"
  by (simp add: field_matches_def is_gte_def)

lemma matches_price:
  "f_price_gte f = Some mp \<Longrightarrow> matches f d \<Longrightarrow> field_matches (is_gte mp) (map_of d ''price'')"
  by (simp add: matches_def)

lemma set_foldl_assign_key:
  "set (foldl assign_key acc xs) = set acc \<union> (set xs - {''__proto__''})"
  by (induction xs arbitrary: acc) (auto simp: assign_key_def)

lemma project_Some:
  "project (Some ks) d = (if ks = [] then d else filter (\<lambda>(k, v). k = ''_id'' \<or> k \<in> set ks) d)"
  by (cases ks) (simp_all add: project_def)

subsection \<open>Evaluation of the list route\<close>

lemmas list_eval = serve_def routes_def get_products_chain get_products_reply_def reply_defs
  find_docs_def apply_sort_def project_def matches_def field_matches_def is_gte_def
  assign_key_def

subsection \<open>The query parameter \<^verbatim>\<open>minPrice\<close>\<close>

text \<open>
  C2, as the claim states it, fails: \<^verbatim>\<open>minPrice=Infinity\<close> does not parse as a finite
  number, since \<^verbatim>\<open>Number("Infinity")\<close> is the infinite number, and the request is
  answered with status 200 (and no product, none having an infinite price), not 400.
\<close>

theorem infinite_min_price_counterexample:
  "str_to_number ''Infinity'' = PosInf
   \<and> fst (serve hex_driver (ObjectId id4) (Some three_products)
            (list_request [''minPrice'' \<mapsto> QStr ''Infinity'']))
     = json_reply 200 (Obj [(''count'', Num (Fin 0)), (''products'', Arr [])])"
  by (simp add: list_eval number_defs example_defs)

lemma min_price_example:
  "fst (serve hex_driver (ObjectId id4) (Some three_products)
          (list_request [''minPrice'' \<mapsto> QStr ''10'']))
   = json_reply 200 (Obj [(''count'', Num (Fin 2)),
       (''products'', Arr [Obj (product id2 ''mug'' 10 ''kitchen''),
                           Obj (product id3 ''lamp'' 15 ''office'')])])"
  by (simp add: list_eval number_defs example_defs)

text \<open>
  C2, amended. For \<^verbatim>\<open>GET /api/products\<close> with \<^verbatim>\<open>minPrice\<close> present: when
  \<^verbatim>\<open>Number(minPrice)\<close> is NaN the answer is status 400 with the error
  \<^verbatim>\<open>minPrice must be a number\<close>, and the collection is not called. Whenever the
  collection is called, \<^verbatim>\<open>Number(minPrice)\<close> is a number (an infinity is one), the
  filter has it as the lower bound of the price, every document that matches has a
  price at or above it, and the answer is status 200 with the matching documents,
  projected. With a \<^verbatim>\<open>sort\<close> that is accepted and a \<^verbatim>\<open>fields\<close> that is absent or
  a string the collection is called. With the products priced 5, 10 and 15,
  \<^verbatim>\<open>minPrice=10\<close> returns the two priced 10 and 15.
\<close>

theorem min_price_parameter:
  assumes "req_method req = GET" and "route req = Products" and "body req = Parsed b"
    and "query req ''minPrice'' = Some v"
  shows "(to_number (js_of v) = NaN \<longrightarrow>
            serve drv gen (Some coll) req =
              (error_reply 400 ''minPrice must be a number'', Some coll))
       \<and> (\<forall>f opts. get_products (query req) = Await (f, opts) \<longrightarrow>
            to_number (js_of v) \<noteq> NaN
            \<and> f_price_gte f = Some (to_number (js_of v))
            \<and> (\<forall>d. matches f d \<longrightarrow>
                  field_matches (is_gte (to_number (js_of v))) (map_of d ''price''))
            \<and> (\<forall>d x. matches f d \<and> map_of d ''price'' = Some (Num x) \<longrightarrow>
                  num_gte x (to_number (js_of v)))
            \<and> serve drv gen (Some coll) req =
                (json_reply 200
                   (Obj [(''count'', Num (Fin (of_nat (length (find_docs coll f opts))))),
                         (''products'', Arr (map Obj (find_docs coll f opts)))]),
                 Some coll)
            \<and> set (find_docs coll f opts) =
                project (o_projection opts) ` {d \<in> set coll. matches f d})
       \<and> (to_number (js_of v) \<noteq> NaN
           \<and> (query req ''sort'' = None \<or> query req ''sort'' = Some (QStr [])
               \<or> query req ''sort'' = Some (QStr ''price'')
               \<or> query req ''sort'' = Some (QStr ''-price''))
           \<and> (query req ''fields'' = None \<or> (\<exists>fs. query req ''fields'' = Some (QStr fs))) \<longrightarrow>
            (\<exists>f opts. get_products (query req) = Await (f, opts)))
       \<and> fst (serve hex_driver (ObjectId id4) (Some three_products)
                (list_request [''minPrice'' \<mapsto> QStr ''10'']))
         = json_reply 200 (Obj [(''count'', Num (Fin 2)),
             (''products'', Arr [Obj (product id2 ''mug'' 10 ''kitchen''),
                                 Obj (product id3 ''lamp'' 15 ''office'')])])"
proof (intro conjI allI impI)
  assume "to_number (js_of v) = NaN"
  with assms(4) have "get_products (query req) = Done (error_reply 400 ''minPrice must be a number'')"
    by (rule get_products_bad_min_price)
  then show "serve drv gen (Some coll) req =
      (error_reply 400 ''minPrice must be a number'', Some coll)"
    by (rule serve_list(1) [OF assms(1-3)])
next
  fix f opts
  assume a: "get_products (query req) = Await (f, opts)"
  show nn: "to_number (js_of v) \<noteq> NaN"
    using a get_products_bad_min_price [of "query req" v] assms(4) by auto
  show g: "f_price_gte f = Some (to_number (js_of v))"
    using get_products_Await(2) [OF a] assms(4) by simp
  show "serve drv gen (Some coll) req =
      (json_reply 200
         (Obj [(''count'', Num (Fin (of_nat (length (find_docs coll f opts))))),
               (''products'', Arr (map Obj (find_docs coll f opts)))]),
       Some coll)"
    using a by (rule serve_list(2) [OF assms(1-3)])
  show "set (find_docs coll f opts) = project (o_projection opts) ` {d \<in> set coll. matches f d}"
    by (rule set_find_docs)
  {
    fix d
    assume "matches f d"
    with g show "field_matches (is_gte (to_number (js_of v))) (map_of d ''price'')"
      by (rule matches_price)
  }
  {
    fix d x
    assume "matches f d \<and> map_of d ''price'' = Some (Num x)"
    with matches_price [OF g, of d] show "num_gte x (to_number (js_of v))"
      by (simp add: field_matches_Num)
  }
next
  assume "to_number (js_of v) \<noteq> NaN
           \<and> (query req ''sort'' = None \<or> query req ''sort'' = Some (QStr [])
               \<or> query req ''sort'' = Some (QStr ''price'')
               \<or> query req ''sort'' = Some (QStr ''-price''))
           \<and> (query req ''fields'' = None \<or> (\<exists>fs. query req ''fields'' = Some (QStr fs)))"
  with assms(4) show "\<exists>f opts. get_products (query req) = Await (f, opts)"
    using get_products_accepts [of "query req"] by blast
next
  show "fst (serve hex_driver (ObjectId id4) (Some three_products)
                (list_request [''minPrice'' \<mapsto> QStr ''10'']))
         = json_reply 200 (Obj [(''count'', Num (Fin 2)),
             (''products'', Arr [Obj (product id2 ''mug'' 10 ''kitchen''),
                                 Obj (product id3 ''lamp'' 15 ''office'')])])"
    by (rule min_price_example)
qed

theorem min_price_parameter_witness:
  "query (list_request [''minPrice'' \<mapsto> QStr ''abc'']) ''minPrice'' = Some (QStr ''abc'')
   \<and> to_number (js_of (QStr ''abc'')) = NaN
   \<and> serve hex_driver (ObjectId id4) (Some three_products)
        (list_request [''minPrice'' \<mapsto> QStr ''abc''])
      = (error_reply 400 ''minPrice must be a number'', Some three_products)
   \<and> (\<exists>f opts. get_products (query (list_request [''minPrice'' \<mapsto> QStr ''10''])) = Await (f, opts)
        \<and> f_price_gte f = Some (Fin 10))"
proof -
  have 1: "req_method (list_request q) = GET" "route (list_request q) = Products"
    "body (list_request q) = Parsed Map.empty" "query (list_request q) = q" for q
    by (simp_all add: list_request_def)
  have n1: "to_number (js_of (QStr ''abc'')) = NaN"
    and n2: "to_number (js_of (QStr ''10'')) = Fin 10"
    by (simp_all add: number_defs)
  have q1: "query (list_request [''minPrice'' \<mapsto> QStr ''abc'']) ''minPrice'' = Some (QStr ''abc'')"
    and q2: "query (list_request [''minPrice'' \<mapsto> QStr ''10'']) ''minPrice'' = Some (QStr ''10'')"
    by (simp_all add: 1)
  note a = min_price_parameter [OF 1(1-3) q1, of hex_driver "ObjectId id4" three_products]
  note b = min_price_parameter [OF 1(1-3) q2, of hex_driver "ObjectId id4" three_products]
  from b n2 have "\<exists>f opts. get_products (query (list_request [''minPrice'' \<mapsto> QStr ''10'']))
      = Await (f, opts)"
    by (simp add: 1)
  with b n2 have B: "\<exists>f opts. get_products (query (list_request [''minPrice'' \<mapsto> QStr ''10'']))
        = Await (f, opts) \<and> f_price_gte f = Some (Fin 10)"
    by auto
  from a n1 have A: "serve hex_driver (ObjectId id4) (Some three_products)
        (list_request [''minPrice'' \<mapsto> QStr ''abc''])
      = (error_reply 400 ''minPrice must be a number'', Some three_products)"
    by blast
  from A B q1 n1 show ?thesis by blast
qed

subsection \<open>The query parameter \<^verbatim>\<open>fields\<close>\<close>

text \<open>
  C3, as the claim states it, fails in three ways. The projection that the handler
  builds does not exclude \<^verbatim>\<open>_id\<close>, so with \<^verbatim>\<open>fields=name,price\<close> each returned
  object has the three fields \<^verbatim>\<open>_id\<close>, \<^verbatim>\<open>name\<close> and \<^verbatim>\<open>price\<close>. The named
  field \<^verbatim>\<open>__proto__\<close> is no key of the projection: with \<^verbatim>\<open>fields=__proto__\<close> the
  projection is empty and the documents are returned whole. And a \<^verbatim>\<open>fields\<close>
  parameter that occurs twice is an array, which is not split: the request is
  answered with status 500.
\<close>

theorem fields_projection_counterexample:
  "fst (serve hex_driver (ObjectId id4) (Some [product id1 ''pen'' 5 ''office''])
          (list_request [''fields'' \<mapsto> QStr ''name,price'']))
     = json_reply 200 (Obj [(''count'', Num (Fin 1)),
         (''products'', Arr [Obj [(''_id'', Oid (ObjectId id1)), (''name'', Str ''pen''),
                                  (''price'', Num (Fin 5))]])])
   \<and> get_products [''fields'' \<mapsto> QStr ''__proto__'']
     = Await (\<lparr>f_category = None, f_price_gte = None\<rparr>,
              \<lparr>o_sort = None, o_projection = Some []\<rparr>)
   \<and> fst (serve hex_driver (ObjectId id4) (Some [product id1 ''pen'' 5 ''office''])
            (list_request [''fields'' \<mapsto> QStr ''__proto__'']))
     = json_reply 200 (Obj [(''count'', Num (Fin 1)),
         (''products'', Arr [Obj (product id1 ''pen'' 5 ''office'')])])
   \<and> fst (serve hex_driver (ObjectId id4) (Some [product id1 ''pen'' 5 ''office''])
            (list_request [''fields'' \<mapsto> QArr [''name'', ''price'']]))
     = \<lparr>status = 500, content = Json (Obj [(''error'', Str ''Server error'')])\<rparr>"
  by (simp add: list_eval trim_def is_space_def example_defs)

lemma name_price_segments:
  "filter (\<lambda>f. f \<noteq> []) (map trim (split CHR '','' ''name,price'')) = [''name'', ''price'']"
  by (simp add: trim_def is_space_def)

lemma project_named:
  assumes "get_products q = Await (f, opts)" and "q ''fields'' = Some (QStr fs)"
  defines "named \<equiv> set (filter (\<lambda>f. f \<noteq> []) (map trim (split CHR '','' fs))) - {''__proto__''}"
  shows "set (case o_projection opts of None \<Rightarrow> [] | Some ks \<Rightarrow> ks) = named"
    and "project (o_projection opts) =
           (\<lambda>d. if named = {} then d else filter (\<lambda>(k, v). k = ''_id'' \<or> k \<in> named) d)"
proof -
  define segs where "segs = filter (\<lambda>f. f \<noteq> []) (map trim (split CHR '','' fs))"
  have named: "named = set segs - {''__proto__''}"
    by (simp add: named_def segs_def)
  have proj: "o_projection opts = (if fs = [] then None else Some (foldl assign_key [] segs))"
    using get_products_Await(4) [OF assms(1)] assms(2) by (simp add: segs_def)
  have ks: "set (foldl assign_key [] segs) = named"
    by (simp add: set_foldl_assign_key named)
  have empty: "segs = []" if "fs = []"
    using that by (simp add: segs_def trim_def)
  show "set (case o_projection opts of None \<Rightarrow> [] | Some ks \<Rightarrow> ks) = named"
    using proj ks empty by (cases "fs = []") (simp_all add: named)
  show "project (o_projection opts) =
           (\<lambda>d. if named = {} then d else filter (\<lambda>(k, v). k = ''_id'' \<or> k \<in> named) d)"
  proof (rule ext, cases "fs = []")
    fix d
    case True
    with proj empty show "project (o_projection opts) d =
        (if named = {} then d else filter (\<lambda>(k, v). k = ''_id'' \<or> k \<in> named) d)"
      by (simp add: project_def named)
  next
    fix d
    case False
    with proj ks show "project (o_projection opts) d =
        (if named = {} then d else filter (\<lambda>(k, v). k = ''_id'' \<or> k \<in> named) d)"
      by (auto simp: project_Some)
  qed
qed

text \<open>
  C3, amended. For \<^verbatim>\<open>GET /api/products\<close> with \<^verbatim>\<open>fields\<close> present as one string,
  \<^verbatim>\<open>minPrice\<close> absent or a number and \<^verbatim>\<open>sort\<close> accepted: the collection is
  called; the parameter is split on commas, each segment trimmed, empty segments
  dropped, and the keys of the projection are exactly the named fields other than
  \<^verbatim>\<open>__proto__\<close> (none when no projection is set). The answer is status 200, and its
  products are the matching documents in the order of the sort, each restricted to
  \<^verbatim>\<open>_id\<close> and the named fields, or whole when no field is named. In particular
  \<^verbatim>\<open>fields=name,price\<close> returns, for each product, its fields \<^verbatim>\<open>_id\<close>,
  \<^verbatim>\<open>name\<close> and \<^verbatim>\<open>price\<close> and no others.
\<close>

theorem fields_parameter:
  assumes "req_method req = GET" and "route req = Products" and "body req = Parsed b"
    and "query req ''fields'' = Some (QStr fs)"
    and "query req ''minPrice'' = None
         \<or> (\<exists>m. query req ''minPrice'' = Some m \<and> to_number (js_of m) \<noteq> NaN)"
    and "query req ''sort'' = None \<or> query req ''sort'' = Some (QStr [])
         \<or> query req ''sort'' = Some (QStr ''price'')
         \<or> query req ''sort'' = Some (QStr ''-price'')"
  shows "\<exists>f opts.
           get_products (query req) = Await (f, opts)
         \<and> (let named = set (filter (\<lambda>f. f \<noteq> []) (map trim (split CHR '','' fs)))
                          - {''__proto__''};
                 restrict = (\<lambda>d. if named = {} then d
                                  else filter (\<lambda>(k, v). k = ''_id'' \<or> k \<in> named) d)
             in set (case o_projection opts of None \<Rightarrow> [] | Some ks \<Rightarrow> ks) = named
              \<and> find_docs coll f opts =
                  map restrict (apply_sort (o_sort opts) (filter (matches f) coll))
              \<and> set (find_docs coll f opts) = restrict ` {d \<in> set coll. matches f d})
         \<and> serve drv gen (Some coll) req =
             (json_reply 200
                (Obj [(''count'', Num (Fin (of_nat (length (find_docs coll f opts))))),
                      (''products'', Arr (map Obj (find_docs coll f opts)))]),
              Some coll)
         \<and> (fs = ''name,price'' \<longrightarrow>
              find_docs coll f opts =
                map (filter (\<lambda>(k, v). k = ''_id'' \<or> k = ''name'' \<or> k = ''price''))
                  (apply_sort (o_sort opts) (filter (matches f) coll)))"
proof -
  define named where
    "named = set (filter (\<lambda>f. f \<noteq> []) (map trim (split CHR '','' fs))) - {''__proto__''}"
  define restrict where
    "restrict = (\<lambda>d :: doc. if named = {} then d
                            else filter (\<lambda>(k, v). k = ''_id'' \<or> k \<in> named) d)"
  from assms(4-6) obtain f opts where aw: "get_products (query req) = Await (f, opts)"
    using get_products_accepts [of "query req"] by blast
  have keys: "set (case o_projection opts of None \<Rightarrow> [] | Some ks \<Rightarrow> ks) = named"
    unfolding named_def by (rule project_named(1) [OF aw assms(4)])
  have pr: "project (o_projection opts) = restrict"
    unfolding restrict_def named_def by (rule project_named(2) [OF aw assms(4)])
  have fd: "find_docs coll f opts = map restrict (apply_sort (o_sort opts) (filter (matches f) coll))"
    by (simp add: find_docs_def pr)
  have st: "set (find_docs coll f opts) = restrict ` {d \<in> set coll. matches f d}"
    by (simp add: set_find_docs pr)
  have srv: "serve drv gen (Some coll) req =
             (json_reply 200
                (Obj [(''count'', Num (Fin (of_nat (length (find_docs coll f opts))))),
                      (''products'', Arr (map Obj (find_docs coll f opts)))]),
              Some coll)"
    using aw by (rule serve_list(2) [OF assms(1-3)])
  have np: "find_docs coll f opts =
                map (filter (\<lambda>(k, v). k = ''_id'' \<or> k = ''name'' \<or> k = ''price''))
                  (apply_sort (o_sort opts) (filter (matches f) coll))"
    if "fs = ''name,price''"
  proof -
    have "named = {''name'', ''price''}"
      unfolding named_def that name_price_segments by auto
    then have "restrict = (\<lambda>d. filter (\<lambda>(k, v). k = ''_id'' \<or> k \<in> {''name'', ''price''}) d)"
      by (simp add: restrict_def)
    also have "\<dots> = filter (\<lambda>(k, v). k = ''_id'' \<or> k = ''name'' \<or> k = ''price'')"
      by (rule ext, rule filter_cong) auto
    finally show ?thesis by (simp add: fd)
  qed
  have part: "let named = set (filter (\<lambda>f. f \<noteq> []) (map trim (split CHR '','' fs)))
                          - {''__proto__''};
                 restrict = (\<lambda>d. if named = {} then d
                                  else filter (\<lambda>(k, v). k = ''_id'' \<or> k \<in> named) d)
             in set (case o_projection opts of None \<Rightarrow> [] | Some ks \<Rightarrow> ks) = named
              \<and> find_docs coll f opts =
                  map restrict (apply_sort (o_sort opts) (filter (matches f) coll))
              \<and> set (find_docs coll f opts) = restrict ` {d \<in> set coll. matches f d}"
    using keys fd st unfolding Let_def restrict_def named_def by (intro conjI)
  from np have np': "fs = ''name,price'' \<longrightarrow>
              find_docs coll f opts =
                map (filter (\<lambda>(k, v). k = ''_id'' \<or> k = ''name'' \<or> k = ''price''))
                  (apply_sort (o_sort opts) (filter (matches f) coll))"
    by (rule impI)
  from aw part srv np' show ?thesis by (intro exI conjI)
qed

theorem fields_parameter_witness:
  "query (list_request [''fields'' \<mapsto> QStr ''name, price,'']) ''fields'' = Some (QStr ''name, price,'')
   \<and> serve hex_driver (ObjectId id4) (Some three_products)
       (list_request [''fields'' \<mapsto> QStr ''name, price,''])
     = (json_reply 200 (Obj [(''count'', Num (Fin 3)),
          (''products'',
           Arr [Obj [(''_id'', Oid (ObjectId id1)), (''name'', Str ''pen''), (''price'', Num (Fin 5))],
                Obj [(''_id'', Oid (ObjectId id2)), (''name'', Str ''mug''), (''price'', Num (Fin 10))],
                Obj [(''_id'', Oid (ObjectId id3)), (''name'', Str ''lamp''),
                     (''price'', Num (Fin 15))]])]),
        Some three_products)"
proof -
  let ?q = "[''fields'' \<mapsto> QStr ''name, price,'']"
  have 1: "req_method (list_request q) = GET" "route (list_request q) = Products"
    "body (list_request q) = Parsed Map.empty" "query (list_request q) = q" for q
    by (simp_all add: list_request_def)
  have q: "query (list_request ?q) ''fields'' = Some (QStr ''name, price,'')"
    and m: "query (list_request ?q) ''minPrice'' = None
         \<or> (\<exists>m. query (list_request ?q) ''minPrice'' = Some m \<and> to_number (js_of m) \<noteq> NaN)"
    and s: "query (list_request ?q) ''sort'' = None \<or> query (list_request ?q) ''sort'' = Some (QStr [])
         \<or> query (list_request ?q) ''sort'' = Some (QStr ''price'')
         \<or> query (list_request ?q) ''sort'' = Some (QStr ''-price'')"
    by (simp_all add: 1)
  have g: "get_products ?q = Await (\<lparr>f_category = None, f_price_gte = None\<rparr>,
                \<lparr>o_sort = None, o_projection = Some [''name'', ''price'']\<rparr>)"
    by (simp add: get_products_chain assign_key_def trim_def is_space_def)
  from fields_parameter [where drv = hex_driver and gen = "ObjectId id4"
      and coll = three_products, OF 1(1-3) q m s]
  obtain f opts where aw: "get_products (query (list_request ?q)) = Await (f, opts)"
    and srv: "serve hex_driver (ObjectId id4) (Some three_products) (list_request ?q) =
             (json_reply 200
                (Obj [(''count'', Num (Fin (of_nat (length (find_docs three_products f opts))))),
                      (''products'', Arr (map Obj (find_docs three_products f opts)))]),
              Some three_products)"
    by blast
  from aw g have "f = \<lparr>f_category = None, f_price_gte = None\<rparr>"
    and "opts = \<lparr>o_sort = None, o_projection = Some [''name'', ''price'']\<rparr>"
    by (simp_all add: 1)
  with srv have "serve hex_driver (ObjectId id4) (Some three_products) (list_request ?q)
     = (json_reply 200 (Obj [(''count'', Num (Fin 3)),
          (''products'',
           Arr [Obj [(''_id'', Oid (ObjectId id1)), (''name'', Str ''pen''), (''price'', Num (Fin 5))],
                Obj [(''_id'', Oid (ObjectId id2)), (''name'', Str ''mug''), (''price'', Num (Fin 10))],
                Obj [(''_id'', Oid (ObjectId id3)), (''name'', Str ''lamp''),
                     (''price'', Num (Fin 15))]])]),
        Some three_products)"
    by (simp add: find_docs_def apply_sort_def project_def matches_def example_defs)
  with q show ?thesis by (intro conjI)
qed

subsection \<open>Routing of the other handlers, and their validation\<close>

lemma routes_create:
  "req_method req = POST \<Longrightarrow> route req = Products \<Longrightarrow>
   routes drv gen coll req b =
     (case post_product b of
        Done r \<Rightarrow> (r, coll)
      | Await d \<Rightarrow>
          (case insertOne gen coll d of
             Inl e \<Rightarrow> (post_product_reply (Inl e), coll)
           | Inr (insertedId, coll') \<Rightarrow> (post_product_reply (Inr insertedId), coll')))"
  by (simp add: routes_def)

lemma routes_update:
  "req_method req = PUT \<Longrightarrow> route req = Product i \<Longrightarrow>
   routes drv gen coll req b =
     (case put_product drv i b of
        Done r \<Rightarrow> (r, coll)
      | Await (oid, upd) \<Rightarrow>
          (case findOneAndUpdate coll oid upd of
             (v, coll') \<Rightarrow> (put_product_reply (Inr v), coll')))"
  by (simp add: routes_def)

lemma routes_get:
  "req_method req = GET \<Longrightarrow> route req = Product i \<Longrightarrow>
   routes drv gen coll req b =
     (case get_product drv i of
        Done r \<Rightarrow> (r, coll)
      | Await oid \<Rightarrow> (get_product_reply (Inr (findOne coll oid)), coll))"
  by (simp add: routes_def)

lemma routes_delete:
  "req_method req = DELETE \<Longrightarrow> route req = Product i \<Longrightarrow>
   routes drv gen coll req b =
     (case delete_product drv i of
        Done r \<Rightarrow> (r, coll)
      | Await oid \<Rightarrow>
          (case deleteOne coll oid of
             (n, coll') \<Rightarrow> (delete_product_reply (Inr n), coll')))"
  by (simp add: routes_def)

lemma post_product_missing:
  "\<not> truthy (b ''name'') \<or> b ''price'' = None \<or> \<not> truthy (b ''category'') \<Longrightarrow>
   post_product b = Done (error_reply 400 ''Missing required fields: name, price, category'')"
  by (auto simp: post_product_def Let_def)

lemma post_product_present:
  assumes "truthy (b ''name'')" and "b ''price'' = Some pr" and "truthy (b ''category'')"
  shows "post_product b =
     (case Number pr of
        Inl e \<Rightarrow> Done server_error
      | Inr p \<Rightarrow>
          if p = NaN then Done (error_reply 400 ''price must be a number'')
          else Await [(''name'', the (b ''name'')), (''price'', Num p),
                      (''category'', the (b ''category''))])"
  using assms by (simp add: post_product_def Let_def)

lemma put_product_valid:
  assumes "isValid drv i"
  shows "put_product drv i b =
     (if b ''name'' = None \<and> b ''price'' = None \<and> b ''category'' = None then
        Done (error_reply 400 ''Provide at least one field: name, price, category'')
      else
        (let upd = (case b ''name'' of None \<Rightarrow> [] | Some n \<Rightarrow> [(''name'', n)])
                 @ (case b ''category'' of None \<Rightarrow> [] | Some c \<Rightarrow> [(''category'', c)])
         in case b ''price'' of
              None \<Rightarrow> Await (new_ObjectId drv i, upd)
            | Some pr \<Rightarrow>
                (case Number pr of
                   Inl e \<Rightarrow> Done server_error
                 | Inr p \<Rightarrow>
                     if p = NaN then Done (error_reply 400 ''price must be a number'')
                     else Await (new_ObjectId drv i, upd @ [(''price'', Num p)]))))"
  using assms
  by (auto simp: put_product_def Let_def split: option.splits sum.splits)

lemma Number_Inr: "Number x = Inr p \<Longrightarrow> p = to_number x"
  by (auto simp: Number_def split: if_splits)

subsection \<open>Evaluation of the other routes\<close>

lemmas item_eval = serve_def routes_def post_product_def post_product_reply_def
  put_product_def put_product_reply_def get_product_def get_product_reply_def
  delete_product_def delete_product_reply_def reply_defs Number_def
  insertOne_def findOne_def findOneAndUpdate_def deleteOne_def has_id_def apply_set_def

subsection \<open>Creating a product\<close>

text \<open>
  C5, as the claim states it, fails: the price \<^verbatim>\<open>"Infinity"\<close> is present and does
  not parse as a finite number, yet the request is answered with status 201 and the
  product is stored with an infinite price.
\<close>

theorem infinite_price_create_counterexample:
  "Number (Str ''Infinity'') = Inr PosInf
   \<and> serve hex_driver (ObjectId id4) (Some [])
       (create_request [''name'' \<mapsto> Str ''pen'', ''price'' \<mapsto> Str ''Infinity'',
                        ''category'' \<mapsto> Str ''office''])
     = (json_reply 201 (Obj [(''message'', Str ''Product created''), (''id'', Oid (ObjectId id4))]),
        Some [[(''_id'', Oid (ObjectId id4)), (''name'', Str ''pen''), (''price'', Num PosInf),
               (''category'', Str ''office'')]])"
  by (simp add: item_eval number_defs example_defs)

text \<open>
  C5, amended. For \<^verbatim>\<open>POST /api/products\<close>: when \<^verbatim>\<open>name\<close> is falsy (absent and the
  empty string are), or \<^verbatim>\<open>price\<close> is absent, or \<^verbatim>\<open>category\<close> is falsy, the answer
  is status 400 with the error about missing fields; otherwise when \<^verbatim>\<open>Number(price)\<close>
  is NaN the answer is status 400 with the error \<^verbatim>\<open>price must be a number\<close>; in both
  cases the collection is not called. Otherwise, when \<^verbatim>\<open>Number(price)\<close> is a number
  (an infinity is one), the record passed to \<^verbatim>\<open>insertOne\<close> is exactly
  \<^verbatim>\<open>{name, price: Number(price), category}\<close>, and, the generated identifier being
  new, the answer is status 201 with \<^verbatim>\<open>{message, id}\<close> and the record is stored under
  that identifier.
\<close>

theorem create_validation:
  assumes "req_method req = POST" and "route req = Products" and "body req = Parsed b"
  shows "(\<not> truthy (b ''name'') \<or> b ''price'' = None \<or> \<not> truthy (b ''category'') \<longrightarrow>
            post_product b =
              Done (error_reply 400 ''Missing required fields: name, price, category''))
       \<and> (\<forall>pr. truthy (b ''name'') \<and> b ''price'' = Some pr \<and> truthy (b ''category'')
                \<and> Number pr = Inr NaN \<longrightarrow>
            post_product b = Done (error_reply 400 ''price must be a number''))
       \<and> (\<forall>r. post_product b = Done r \<longrightarrow> serve drv gen (Some coll) req = (r, Some coll))
       \<and> (\<forall>n pr c p. b ''name'' = Some n \<and> truthy (Some n) \<and> b ''price'' = Some pr
                \<and> b ''category'' = Some c \<and> truthy (Some c) \<and> Number pr = Inr p \<and> p \<noteq> NaN \<longrightarrow>
            post_product b = Await [(''name'', n), (''price'', Num p), (''category'', c)]
            \<and> ((\<forall>d \<in> set coll. \<not> has_id gen d) \<longrightarrow>
                 serve drv gen (Some coll) req =
                   (json_reply 201 (Obj [(''message'', Str ''Product created''), (''id'', Oid gen)]),
                    Some (coll @ [[(''_id'', Oid gen), (''name'', n), (''price'', Num p),
                                   (''category'', c)]]))))"
proof (intro conjI allI impI)
  assume "\<not> truthy (b ''name'') \<or> b ''price'' = None \<or> \<not> truthy (b ''category'')"
  then show "post_product b =
      Done (error_reply 400 ''Missing required fields: name, price, category'')"
    by (rule post_product_missing)
next
  fix pr
  assume "truthy (b ''name'') \<and> b ''price'' = Some pr \<and> truthy (b ''category'')
          \<and> Number pr = Inr NaN"
  then show "post_product b = Done (error_reply 400 ''price must be a number'')"
    by (simp add: post_product_present)
next
  fix r
  assume "post_product b = Done r"
  with assms show "serve drv gen (Some coll) req = (r, Some coll)"
    by (simp add: serve_ready routes_create)
next
  fix n pr c p
  assume a: "b ''name'' = Some n \<and> truthy (Some n) \<and> b ''price'' = Some pr
             \<and> b ''category'' = Some c \<and> truthy (Some c) \<and> Number pr = Inr p \<and> p \<noteq> NaN"
  then show aw: "post_product b = Await [(''name'', n), (''price'', Num p), (''category'', c)]"
    by (simp add: post_product_present)
  assume "\<forall>d \<in> set coll. \<not> has_id gen d"
  with aw assms show "serve drv gen (Some coll) req =
      (json_reply 201 (Obj [(''message'', Str ''Product created''), (''id'', Oid gen)]),
       Some (coll @ [[(''_id'', Oid gen), (''name'', n), (''price'', Num p), (''category'', c)]]))"
    by (simp add: serve_ready routes_create insertOne_def post_product_reply_def)
qed

theorem create_validation_witness:
  "serve hex_driver (ObjectId id4) (Some three_products)
     (create_request [''name'' \<mapsto> Str ''cup'', ''price'' \<mapsto> Str ''7.5'', ''category'' \<mapsto> Str ''kitchen''])
   = (json_reply 201 (Obj [(''message'', Str ''Product created''), (''id'', Oid (ObjectId id4))]),
      Some (three_products @ [[(''_id'', Oid (ObjectId id4)), (''name'', Str ''cup''),
                               (''price'', Num (Fin (15 / 2))), (''category'', Str ''kitchen'')]]))
   \<and> post_product [''name'' \<mapsto> Str '''', ''price'' \<mapsto> Str ''7.5'', ''category'' \<mapsto> Str ''kitchen'']
     = Done (error_reply 400 ''Missing required fields: name, price, category'')
   \<and> post_product [''name'' \<mapsto> Str ''cup'', ''price'' \<mapsto> Str ''abc'', ''category'' \<mapsto> Str ''kitchen'']
     = Done (error_reply 400 ''price must be a number'')"
proof -
  have 1: "req_method (create_request x) = POST" "route (create_request x) = Products"
    "body (create_request x) = Parsed x" for x
    by (simp_all add: create_request_def)
  have n1: "Number (Str ''7.5'') = Inr (Fin (15 / 2))" and n2: "Number (Str ''abc'') = Inr NaN"
    by (simp_all add: Number_def number_defs)
  have fresh: "\<forall>d \<in> set three_products. \<not> has_id (ObjectId id4) d"
    by (simp add: has_id_def example_defs)
  let ?b1 = "[''name'' \<mapsto> Str ''cup'', ''price'' \<mapsto> Str ''7.5'', ''category'' \<mapsto> Str ''kitchen'']"
  let ?b2 = "[''name'' \<mapsto> Str '''', ''price'' \<mapsto> Str ''7.5'', ''category'' \<mapsto> Str ''kitchen'']"
  let ?b3 = "[''name'' \<mapsto> Str ''cup'', ''price'' \<mapsto> Str ''abc'', ''category'' \<mapsto> Str ''kitchen'']"
  from create_validation [OF 1, of ?b1 hex_driver "ObjectId id4" three_products] n1 fresh
  have A: "serve hex_driver (ObjectId id4) (Some three_products) (create_request ?b1)
   = (json_reply 201 (Obj [(''message'', Str ''Product created''), (''id'', Oid (ObjectId id4))]),
      Some (three_products @ [[(''_id'', Oid (ObjectId id4)), (''name'', Str ''cup''),
                               (''price'', Num (Fin (15 / 2))), (''category'', Str ''kitchen'')]]))"
    by simp
  from create_validation [OF 1, of ?b2 hex_driver "ObjectId id4" three_products]
  have B: "post_product ?b2 = Done (error_reply 400 ''Missing required fields: name, price, category'')"
    by simp
  from create_validation [OF 1, of ?b3 hex_driver "ObjectId id4" three_products] n2
  have C: "post_product ?b3 = Done (error_reply 400 ''price must be a number'')"
    by simp
  from A B C show ?thesis by (intro conjI)
qed

subsection \<open>Validation of a partial update\<close>

text \<open>
  C6, as the claim states it, fails: with a valid identifier the price
  \<^verbatim>\<open>"Infinity"\<close> is supplied and does not parse as a finite number, yet the
  handler calls the collection with the update set \<^verbatim>\<open>{price: Infinity}\<close> and the
  request is answered with status 200.
\<close>

theorem infinite_price_update_counterexample:
  "Number (Str ''Infinity'') = Inr PosInf
   \<and> put_product hex_driver id1 [''price'' \<mapsto> Str ''Infinity'']
     = Await (ObjectId id1, [(''price'', Num PosInf)])
   \<and> fst (serve hex_driver (ObjectId id4) (Some three_products)
            (item_request PUT id1 [''price'' \<mapsto> Str ''Infinity'']))
     = json_reply 200 (Obj [(''message'', Str ''Product updated''),
         (''product'', Obj [(''_id'', Oid (ObjectId id1)), (''name'', Str ''pen''),
                            (''price'', Num PosInf), (''category'', Str ''office'')])])"
  by (simp add: item_eval number_defs example_defs)

text \<open>
  C6, amended. For \<^verbatim>\<open>PUT /api/products/:id\<close>: an identifier that is not valid is
  answered with status 400 (\<^verbatim>\<open>Invalid id\<close>); with a valid one, a body that supplies
  none of the three fields is answered with status 400, and so is a supplied price
  for which \<^verbatim>\<open>Number(price)\<close> is NaN. Each of these answers is given without a call
  of the collection, which stays as it is. When the collection is called, it is with
  the ObjectId of the path identifier and an update set that holds exactly the
  supplied fields, the price as \<^verbatim>\<open>Number(price)\<close>; and it is called whenever the
  identifier is valid, a field is supplied, and a supplied price converts to a number
  other than NaN (an infinity is one).
\<close>

theorem update_validation:
  assumes "req_method req = PUT" and "route req = Product i" and "body req = Parsed b"
  shows "(\<not> isValid drv i \<longrightarrow> put_product drv i b = Done (error_reply 400 ''Invalid id''))
       \<and> (isValid drv i \<and> b ''name'' = None \<and> b ''price'' = None \<and> b ''category'' = None \<longrightarrow>
            put_product drv i b =
              Done (error_reply 400 ''Provide at least one field: name, price, category''))
       \<and> (\<forall>pr. isValid drv i \<and> b ''price'' = Some pr \<and> Number pr = Inr NaN \<longrightarrow>
            put_product drv i b = Done (error_reply 400 ''price must be a number''))
       \<and> (\<forall>pr. \<not> isValid drv i
                \<or> (b ''name'' = None \<and> b ''price'' = None \<and> b ''category'' = None)
                \<or> (b ''price'' = Some pr \<and> Number pr = Inr NaN) \<longrightarrow>
            (\<exists>r. put_product drv i b = Done r \<and> status r = 400))
       \<and> (\<forall>r. put_product drv i b = Done r \<longrightarrow> serve drv gen (Some coll) req = (r, Some coll))
       \<and> (\<forall>oid upd. put_product drv i b = Await (oid, upd) \<longrightarrow>
            oid = new_ObjectId drv i
            \<and> upd = (case b ''name'' of None \<Rightarrow> [] | Some n \<Rightarrow> [(''name'', n)])
                  @ (case b ''category'' of None \<Rightarrow> [] | Some c \<Rightarrow> [(''category'', c)])
                  @ (case b ''price'' of None \<Rightarrow> [] | Some pr \<Rightarrow> [(''price'', Num (to_number pr))]))
       \<and> (isValid drv i \<and> (b ''name'' \<noteq> None \<or> b ''price'' \<noteq> None \<or> b ''category'' \<noteq> None)
           \<and> (\<forall>pr. b ''price'' = Some pr \<longrightarrow> (\<exists>p. Number pr = Inr p \<and> p \<noteq> NaN)) \<longrightarrow>
            (\<exists>oid upd. put_product drv i b = Await (oid, upd)))"
proof -
  have invalid: "put_product drv i b = Done (error_reply 400 ''Invalid id'')" if "\<not> isValid drv i"
    using that by (simp add: put_product_def)
  have none: "put_product drv i b =
      Done (error_reply 400 ''Provide at least one field: name, price, category'')"
    if "isValid drv i" "b ''name'' = None" "b ''price'' = None" "b ''category'' = None"
    using that by (simp add: put_product_valid)
  have nan: "put_product drv i b = Done (error_reply 400 ''price must be a number'')"
    if "isValid drv i" "b ''price'' = Some pr" "Number pr = Inr NaN" for pr
    using that by (simp add: put_product_valid Let_def)
  have status: "\<exists>r. put_product drv i b = Done r \<and> status r = 400"
    if "\<not> isValid drv i
        \<or> (b ''name'' = None \<and> b ''price'' = None \<and> b ''category'' = None)
        \<or> (b ''price'' = Some pr \<and> Number pr = Inr NaN)" for pr
  proof (cases "isValid drv i")
    case False
    with invalid show ?thesis by (simp add: reply_defs)
  next
    case True
    with that none nan [of pr] show ?thesis by (auto simp: reply_defs)
  qed
  have before: "serve drv gen (Some coll) req = (r, Some coll)" if "put_product drv i b = Done r" for r
    using that assms by (simp add: serve_ready routes_update)
  have upd: "oid = new_ObjectId drv i
            \<and> upd = (case b ''name'' of None \<Rightarrow> [] | Some n \<Rightarrow> [(''name'', n)])
                  @ (case b ''category'' of None \<Rightarrow> [] | Some c \<Rightarrow> [(''category'', c)])
                  @ (case b ''price'' of None \<Rightarrow> [] | Some pr \<Rightarrow> [(''price'', Num (to_number pr))])"
    if a: "put_product drv i b = Await (oid, upd)" for oid upd
  proof -
    have v: "isValid drv i"
      using a invalid by (cases "isValid drv i") auto
    show ?thesis
      using a unfolding put_product_valid [OF v] Let_def
      by (auto split: if_splits option.splits sum.splits dest: Number_Inr)
  qed
  have accepts: "\<exists>oid upd. put_product drv i b = Await (oid, upd)"
    if "isValid drv i \<and> (b ''name'' \<noteq> None \<or> b ''price'' \<noteq> None \<or> b ''category'' \<noteq> None)
        \<and> (\<forall>pr. b ''price'' = Some pr \<longrightarrow> (\<exists>p. Number pr = Inr p \<and> p \<noteq> NaN))"
  proof -
    from that have v: "isValid drv i" by simp
    show ?thesis
      using that unfolding put_product_valid [OF v] Let_def
      by (auto split: option.splits)
  qed
  have c1: "\<not> isValid drv i \<longrightarrow> put_product drv i b = Done (error_reply 400 ''Invalid id'')"
    using invalid by simp
  have c2: "isValid drv i \<and> b ''name'' = None \<and> b ''price'' = None \<and> b ''category'' = None \<longrightarrow>
            put_product drv i b =
              Done (error_reply 400 ''Provide at least one field: name, price, category'')"
    using none by simp
  have c3: "\<forall>pr. isValid drv i \<and> b ''price'' = Some pr \<and> Number pr = Inr NaN \<longrightarrow>
            put_product drv i b = Done (error_reply 400 ''price must be a number'')"
    using nan by simp
  have c4: "\<forall>pr. \<not> isValid drv i
                \<or> (b ''name'' = None \<and> b ''price'' = None \<and> b ''category'' = None)
                \<or> (b ''price'' = Some pr \<and> Number pr = Inr NaN) \<longrightarrow>
            (\<exists>r. put_product drv i b = Done r \<and> status r = 400)"
    using status by (intro allI impI)
  have c5: "\<forall>r. put_product drv i b = Done r \<longrightarrow> serve drv gen (Some coll) req = (r, Some coll)"
    using before by (intro allI impI)
  have c6: "\<forall>oid upd. put_product drv i b = Await (oid, upd) \<longrightarrow>
            oid = new_ObjectId drv i
            \<and> upd = (case b ''name'' of None \<Rightarrow> [] | Some n \<Rightarrow> [(''name'', n)])
                  @ (case b ''category'' of None \<Rightarrow> [] | Some c \<Rightarrow> [(''category'', c)])
                  @ (case b ''price'' of None \<Rightarrow> [] | Some pr \<Rightarrow> [(''price'', Num (to_number pr))])"
    using upd by (intro allI impI)
  have c7: "isValid drv i \<and> (b ''name'' \<noteq> None \<or> b ''price'' \<noteq> None \<or> b ''category'' \<noteq> None)
           \<and> (\<forall>pr. b ''price'' = Some pr \<longrightarrow> (\<exists>p. Number pr = Inr p \<and> p \<noteq> NaN)) \<longrightarrow>
            (\<exists>oid upd. put_product drv i b = Await (oid, upd))"
    using accepts by (intro impI)
  from c1 c2 c3 c4 c5 c6 c7 show ?thesis by (intro conjI)
qed

theorem update_validation_witness:
  "put_product hex_driver ''not-an-id'' [''price'' \<mapsto> Num (Fin 3)] = Done (error_reply 400 ''Invalid id'')
   \<and> put_product hex_driver id1 Map.empty
       = Done (error_reply 400 ''Provide at least one field: name, price, category'')
   \<and> put_product hex_driver id1 [''price'' \<mapsto> Str ''abc''] = Done (error_reply 400 ''price must be a number'')
   \<and> serve hex_driver (ObjectId id4) (Some three_products) (item_request PUT id1 [''price'' \<mapsto> Str ''abc''])
       = (error_reply 400 ''price must be a number'', Some three_products)
   \<and> put_product hex_driver id1 [''category'' \<mapsto> Str ''x''] = Await (ObjectId id1, [(''category'', Str ''x'')])"
proof -
  have 1: "req_method (item_request PUT x y) = PUT" "route (item_request PUT x y) = Product x"
    "body (item_request PUT x y) = Parsed y" for x y
    by (simp_all add: item_request_def)
  have v: "isValid hex_driver id1" "\<not> isValid hex_driver ''not-an-id''"
    "new_ObjectId hex_driver id1 = ObjectId id1"
    by (simp_all add: example_defs hex_val_def)
  have n: "Number (Str ''abc'') = Inr NaN"
    by (simp add: Number_def number_defs)
  note a = update_validation [where req = "item_request PUT ''not-an-id'' [''price'' \<mapsto> Num (Fin 3)]" and i = "''not-an-id''"
      and b = "[''price'' \<mapsto> Num (Fin 3)]" and drv = hex_driver and gen = "ObjectId id4" and coll = three_products, OF 1]
  note b = update_validation [where req = "item_request PUT id1 Map.empty" and i = "id1"
      and b = "Map.empty" and drv = hex_driver and gen = "ObjectId id4" and coll = three_products, OF 1]
  note c = update_validation [where req = "item_request PUT id1 [''price'' \<mapsto> Str ''abc'']" and i = "id1"
      and b = "[''price'' \<mapsto> Str ''abc'']" and drv = hex_driver and gen = "ObjectId id4" and coll = three_products, OF 1]
  note d = update_validation [where req = "item_request PUT id1 [''category'' \<mapsto> Str ''x'']" and i = "id1"
      and b = "[''category'' \<mapsto> Str ''x'']" and drv = hex_driver and gen = "ObjectId id4" and coll = three_products, OF 1]
  from a v have A: "put_product hex_driver ''not-an-id'' [''price'' \<mapsto> Num (Fin 3)]
      = Done (error_reply 400 ''Invalid id'')"
    by blast
  from b v have B: "put_product hex_driver id1 Map.empty
       = Done (error_reply 400 ''Provide at least one field: name, price, category'')"
    by simp
  from c v n have C: "put_product hex_driver id1 [''price'' \<mapsto> Str ''abc'']
      = Done (error_reply 400 ''price must be a number'')"
    by simp
  with c have C': "serve hex_driver (ObjectId id4) (Some three_products)
        (item_request PUT id1 [''price'' \<mapsto> Str ''abc''])
       = (error_reply 400 ''price must be a number'', Some three_products)"
    by blast
  from d v have "\<exists>oid upd. put_product hex_driver id1 [''category'' \<mapsto> Str ''x''] = Await (oid, upd)"
    by simp
  with d v have D: "put_product hex_driver id1 [''category'' \<mapsto> Str ''x'']
      = Await (ObjectId id1, [(''category'', Str ''x'')])"
    by auto
  from A B C C' D show ?thesis by (intro conjI)
qed

subsection \<open>Looking up and deleting by identifier\<close>

lemma findOne_None: "findOne coll oid = None \<longleftrightarrow> (\<forall>d \<in> set coll. \<not> has_id oid d)"
  by (auto simp: findOne_def find_None_iff)

lemma remove_first_no_match:
  "\<forall>d \<in> set coll. \<not> has_id oid d \<Longrightarrow> remove_first oid coll = coll"
  by (induction coll) auto

lemma unique_ids_removed:
  "unique_ids coll \<Longrightarrow> \<forall>d \<in> set (remove_first oid coll). \<not> has_id oid d"
proof (induction coll)
  case Nil
  then show ?case by simp
next
  case (Cons x xs)
  show ?case
  proof (cases "has_id oid x")
    case True
    have "\<not> has_id oid d" if "d \<in> set xs" for d
    proof
      assume "has_id oid d"
      with True have "map_of x ''_id'' = map_of d ''_id''"
        by (simp add: has_id_def)
      moreover from that have "map_of d ''_id'' \<in> (\<lambda>d. map_of d ''_id'') ` set xs"
        by (rule imageI)
      ultimately show False
        using Cons.prems by (simp add: unique_ids_def)
    qed
    with True show ?thesis by simp
  next
    case False
    with Cons show ?thesis by (simp add: unique_ids_def)
  qed
qed

text \<open>
  C7. For \<^verbatim>\<open>GET\<close> and \<^verbatim>\<open>DELETE /api/products/:id\<close>: an identifier that is not valid
  is answered with status 400, not 404; a valid identifier that no document of the
  collection has is answered with status 404 and the body \<^verbatim>\<open>{error: "Not found"}\<close>;
  and when a document has the identifier, identifiers being unique in the collection,
  a first \<^verbatim>\<open>DELETE\<close> is answered with status 200 and the same request on the
  collection it leaves with status 404. A \<^verbatim>\<open>GET\<close> for an identifier that a document
  has is answered with that document.
\<close>

theorem item_lookup:
  assumes "route req = Product i" and "body req = Parsed b"
    and "req_method req = GET \<or> req_method req = DELETE"
  shows "(\<not> isValid drv i \<longrightarrow>
            serve drv gen (Some coll) req = (error_reply 400 ''Invalid id'', Some coll))
       \<and> (isValid drv i \<and> (\<forall>d \<in> set coll. \<not> has_id (new_ObjectId drv i) d) \<longrightarrow>
            serve drv gen (Some coll) req = (error_reply 404 ''Not found'', Some coll))
       \<and> (\<forall>d. req_method req = GET \<and> isValid drv i \<and> findOne coll (new_ObjectId drv i) = Some d \<longrightarrow>
            serve drv gen (Some coll) req = (json_reply 200 (Obj d), Some coll))
       \<and> (req_method req = DELETE \<and> isValid drv i \<and> unique_ids coll
           \<and> (\<exists>d \<in> set coll. has_id (new_ObjectId drv i) d) \<longrightarrow>
            (\<exists>coll'. serve drv gen (Some coll) req =
                        (json_reply 200 (Obj [(''message'', Str ''Product deleted'')]), Some coll')
                    \<and> serve drv gen (Some coll') req = (error_reply 404 ''Not found'', Some coll')))"
proof -
  let ?oid = "new_ObjectId drv i"
  have get: "serve drv gen (Some c) req =
      (if \<not> isValid drv i then error_reply 400 ''Invalid id''
       else get_product_reply (Inr (findOne c ?oid)), Some c)"
    if "req_method req = GET" for c
    using that assms(1,2) by (simp add: serve_ready routes_get get_product_def)
  have del: "serve drv gen (Some c) req =
      (if \<not> isValid drv i then (error_reply 400 ''Invalid id'', Some c)
       else if \<exists>d \<in> set c. has_id ?oid d
         then (json_reply 200 (Obj [(''message'', Str ''Product deleted'')]),
               Some (remove_first ?oid c))
       else (error_reply 404 ''Not found'', Some c))"
    if "req_method req = DELETE" for c
    using that assms(1,2)
    by (simp add: serve_ready routes_delete delete_product_def deleteOne_def
        delete_product_reply_def)
  have c1: "\<not> isValid drv i \<longrightarrow>
            serve drv gen (Some coll) req = (error_reply 400 ''Invalid id'', Some coll)"
    using assms(3) get del by auto
  have c2: "isValid drv i \<and> (\<forall>d \<in> set coll. \<not> has_id ?oid d) \<longrightarrow>
            serve drv gen (Some coll) req = (error_reply 404 ''Not found'', Some coll)"
  proof
    assume a: "isValid drv i \<and> (\<forall>d \<in> set coll. \<not> has_id ?oid d)"
    then have "findOne coll ?oid = None" by (simp add: findOne_None)
    with a assms(3) get del show
      "serve drv gen (Some coll) req = (error_reply 404 ''Not found'', Some coll)"
      by (auto simp: get_product_reply_def)
  qed
  have c3: "\<forall>d. req_method req = GET \<and> isValid drv i \<and> findOne coll ?oid = Some d \<longrightarrow>
            serve drv gen (Some coll) req = (json_reply 200 (Obj d), Some coll)"
    using get by (simp add: get_product_reply_def)
  have c4: "req_method req = DELETE \<and> isValid drv i \<and> unique_ids coll
           \<and> (\<exists>d \<in> set coll. has_id ?oid d) \<longrightarrow>
            (\<exists>coll'. serve drv gen (Some coll) req =
                        (json_reply 200 (Obj [(''message'', Str ''Product deleted'')]), Some coll')
                    \<and> serve drv gen (Some coll') req = (error_reply 404 ''Not found'', Some coll'))"
  proof
    assume a: "req_method req = DELETE \<and> isValid drv i \<and> unique_ids coll
           \<and> (\<exists>d \<in> set coll. has_id ?oid d)"
    then have first: "serve drv gen (Some coll) req =
        (json_reply 200 (Obj [(''message'', Str ''Product deleted'')]),
         Some (remove_first ?oid coll))"
      using del [of coll] by simp
    from a have "\<forall>d \<in> set (remove_first ?oid coll). \<not> has_id ?oid d"
      using unique_ids_removed [of coll ?oid] by blast
    with a have "serve drv gen (Some (remove_first ?oid coll)) req =
        (error_reply 404 ''Not found'', Some (remove_first ?oid coll))"
      using del [of "remove_first ?oid coll"] by simp
    with first show "\<exists>coll'. serve drv gen (Some coll) req =
                        (json_reply 200 (Obj [(''message'', Str ''Product deleted'')]), Some coll')
                    \<and> serve drv gen (Some coll') req = (error_reply 404 ''Not found'', Some coll')"
      by blast
  qed
  from c1 c2 c3 c4 show ?thesis by (intro conjI)
qed

theorem item_lookup_witness:
  "serve hex_driver (ObjectId id4) (Some three_products) (item_request GET ''not-an-id'' Map.empty)
     = (error_reply 400 ''Invalid id'', Some three_products)
   \<and> serve hex_driver (ObjectId id4) (Some three_products) (item_request GET id4 Map.empty)
     = (error_reply 404 ''Not found'', Some three_products)
   \<and> unique_ids three_products
   \<and> (\<exists>coll'. serve hex_driver (ObjectId id4) (Some three_products) (item_request DELETE id2 Map.empty)
                 = (json_reply 200 (Obj [(''message'', Str ''Product deleted'')]), Some coll')
             \<and> serve hex_driver (ObjectId id4) (Some coll') (item_request DELETE id2 Map.empty)
                 = (error_reply 404 ''Not found'', Some coll'))"
proof -
  have 1: "route (item_request m x y) = Product x" "body (item_request m x y) = Parsed y"
    "req_method (item_request m x y) = m" for m x y
    by (simp_all add: item_request_def)
  have v: "\<not> isValid hex_driver ''not-an-id''" "isValid hex_driver id4" "isValid hex_driver id2"
    "new_ObjectId hex_driver id4 = ObjectId id4" "new_ObjectId hex_driver id2 = ObjectId id2"
    by (simp_all add: example_defs hex_val_def)
  have u: "unique_ids three_products"
    by (simp add: unique_ids_def example_defs)
  have absent: "\<forall>d \<in> set three_products. \<not> has_id (ObjectId id4) d"
    by (simp add: has_id_def example_defs)
  have there: "\<exists>d \<in> set three_products. has_id (ObjectId id2) d"
    by (simp add: has_id_def example_defs)
  note a = item_lookup [where req = "item_request GET ''not-an-id'' Map.empty" and i = "''not-an-id''"
      and b = Map.empty and drv = hex_driver and gen = "ObjectId id4" and coll = three_products]
  note b = item_lookup [where req = "item_request GET id4 Map.empty" and i = id4
      and b = Map.empty and drv = hex_driver and gen = "ObjectId id4" and coll = three_products]
  note c = item_lookup [where req = "item_request DELETE id2 Map.empty" and i = id2
      and b = Map.empty and drv = hex_driver and gen = "ObjectId id4" and coll = three_products]
  from a v have A: "serve hex_driver (ObjectId id4) (Some three_products)
      (item_request GET ''not-an-id'' Map.empty) = (error_reply 400 ''Invalid id'', Some three_products)"
    by (simp add: 1)
  from b v absent have B: "serve hex_driver (ObjectId id4) (Some three_products)
      (item_request GET id4 Map.empty) = (error_reply 404 ''Not found'', Some three_products)"
    by (simp add: 1)
  from c v u there have C: "\<exists>coll'. serve hex_driver (ObjectId id4) (Some three_products) (item_request DELETE id2 Map.empty)
                 = (json_reply 200 (Obj [(''message'', Str ''Product deleted'')]), Some coll')
             \<and> serve hex_driver (ObjectId id4) (Some coll') (item_request DELETE id2 Map.empty)
                 = (error_reply 404 ''Not found'', Some coll')"
    by (simp add: 1)
  from A B u C show ?thesis by (intro conjI)
qed

subsection \<open>The update of a document\<close>

lemma map_of_apply_set: "map_of (apply_set upd d) = map_of d ++ map_of (rev upd)"
  unfolding apply_set_def
proof (induction upd arbitrary: d)
  case Nil
  then show ?case by simp
next
  case (Cons kv upd)
  obtain k v where kv: "kv = (k, v)" by (cases kv)
  have "map_of (foldl (\<lambda>acc (k, v). AList.update k v acc) d (kv # upd))
        = map_of (AList.update k v d) ++ map_of (rev upd)"
    using Cons.IH [of "AList.update k v d"] by (simp add: kv)
  also have "\<dots> = map_of d ++ map_of (rev (kv # upd))"
    by (rule ext) (simp add: kv update_conv' map_add_def split: option.splits)
  finally show ?case .
qed

lemma update_set_lookup:
  fixes b :: "string \<rightharpoonup> jsval"
  defines "upd \<equiv> (case b ''name'' of None \<Rightarrow> [] | Some n \<Rightarrow> [(''name'', n)])
                  @ (case b ''category'' of None \<Rightarrow> [] | Some c \<Rightarrow> [(''category'', c)])
                  @ (case b ''price'' of None \<Rightarrow> [] | Some pr \<Rightarrow> [(''price'', Num (to_number pr))])"
  shows "map_of (apply_set upd d) k =
           (if k = ''name'' \<and> b ''name'' \<noteq> None then b ''name''
            else if k = ''category'' \<and> b ''category'' \<noteq> None then b ''category''
            else if k = ''price'' \<and> b ''price'' \<noteq> None
              then map_option (\<lambda>pr. Num (to_number pr)) (b ''price'')
            else map_of d k)"
  unfolding upd_def
  by (cases "b ''name''"; cases "b ''category''"; cases "b ''price''")
     (simp_all add: map_of_apply_set map_add_def)

lemma update_set_keeps_id:
  fixes b :: "string \<rightharpoonup> jsval"
  defines "upd \<equiv> (case b ''name'' of None \<Rightarrow> [] | Some n \<Rightarrow> [(''name'', n)])
                  @ (case b ''category'' of None \<Rightarrow> [] | Some c \<Rightarrow> [(''category'', c)])
                  @ (case b ''price'' of None \<Rightarrow> [] | Some pr \<Rightarrow> [(''price'', Num (to_number pr))])"
  shows "has_id oid (apply_set upd d) = has_id oid d"
  using update_set_lookup [of b d "''_id''"] by (simp add: has_id_def upd_def)

lemma find_update_first:
  assumes "\<And>d. has_id oid (apply_set upd d) = has_id oid d"
  shows "find (has_id oid) (update_first oid upd coll)
         = map_option (apply_set upd) (find (has_id oid) coll)"
  using assms by (induction coll) auto

lemma length_update_first: "length (update_first oid upd coll) = length coll"
  by (induction coll) auto

lemma update_first_others:
  assumes "\<And>d. has_id oid (apply_set upd d) = has_id oid d" and "\<not> has_id oid x"
  shows "x \<in> set (update_first oid upd coll) \<longleftrightarrow> x \<in> set coll"
  using assms by (induction coll) auto

lemma update_first_no_match:
  "\<forall>d \<in> set coll. \<not> has_id oid d \<Longrightarrow> update_first oid upd coll = coll"
  by (induction coll) auto

lemma set_update_first:
  "set (update_first oid upd coll) \<subseteq> set coll \<union> apply_set upd ` set coll"
  by (induction coll) auto

lemma set_remove_first: "set (remove_first oid coll) \<subseteq> set coll"
  by (induction coll) auto

subsection \<open>The partial update\<close>

text \<open>
  C1. For \<^verbatim>\<open>PUT /api/products/:id\<close> with a valid identifier and a body that supplies
  at least one of the three fields, a supplied price converting to a number other
  than NaN: when a document has the identifier, the answer is status 200 with the body
  \<^verbatim>\<open>{message, product}\<close>, where the product has the supplied fields at their new
  values (the price as \<^verbatim>\<open>Number(price)\<close>) and every other field as it was; it is
  the document now stored under the identifier, and the other documents are as they
  were. When no document has the identifier, the answer is status 404 with the body
  \<^verbatim>\<open>{error: "Not found"}\<close> and the collection is as it was. The reply tells the two
  cases apart by the truthiness of \<^verbatim>\<open>result.value\<close>.
\<close>

theorem partial_update:
  assumes "req_method req = PUT" and "route req = Product i" and "body req = Parsed b"
    and "isValid drv i"
    and "b ''name'' \<noteq> None \<or> b ''price'' \<noteq> None \<or> b ''category'' \<noteq> None"
    and "\<forall>pr. b ''price'' = Some pr \<longrightarrow> (\<exists>p. Number pr = Inr p \<and> p \<noteq> NaN)"
  shows "(\<forall>d. findOne coll (new_ObjectId drv i) = Some d \<longrightarrow>
            (\<exists>d' coll'.
               serve drv gen (Some coll) req =
                 (json_reply 200 (Obj [(''message'', Str ''Product updated''), (''product'', Obj d')]),
                  Some coll')
               \<and> (\<forall>k. map_of d' k =
                         (if k = ''name'' \<and> b ''name'' \<noteq> None then b ''name''
                          else if k = ''category'' \<and> b ''category'' \<noteq> None then b ''category''
                          else if k = ''price'' \<and> b ''price'' \<noteq> None
                            then map_option (\<lambda>pr. Num (to_number pr)) (b ''price'')
                          else map_of d k))
               \<and> findOne coll' (new_ObjectId drv i) = Some d'
               \<and> length coll' = length coll
               \<and> (\<forall>x. \<not> has_id (new_ObjectId drv i) x \<longrightarrow> (x \<in> set coll' \<longleftrightarrow> x \<in> set coll))))
       \<and> (findOne coll (new_ObjectId drv i) = None \<longrightarrow>
            serve drv gen (Some coll) req = (error_reply 404 ''Not found'', Some coll))
       \<and> (findOne coll (new_ObjectId drv i) = None
            \<longleftrightarrow> (\<forall>d \<in> set coll. \<not> has_id (new_ObjectId drv i) d))
       \<and> (\<forall>v. put_product_reply (Inr v) =
                 (if truthy (map_option Obj v)
                  then json_reply 200 (Obj [(''message'', Str ''Product updated''),
                                            (''product'', Obj (the v))])
                  else error_reply 404 ''Not found''))"
proof -
  let ?oid = "new_ObjectId drv i"
  define upd where "upd = (case b ''name'' of None \<Rightarrow> [] | Some n \<Rightarrow> [(''name'', n)])
                  @ (case b ''category'' of None \<Rightarrow> [] | Some c \<Rightarrow> [(''category'', c)])
                  @ (case b ''price'' of None \<Rightarrow> [] | Some pr \<Rightarrow> [(''price'', Num (to_number pr))])"
  have keep: "has_id ?oid (apply_set upd d) = has_id ?oid d" for d
    unfolding upd_def by (rule update_set_keeps_id)
  have aw: "put_product drv i b = Await (?oid, upd)"
    using assms(5,6) unfolding put_product_valid [OF assms(4)] Let_def upd_def
    by (auto split: option.splits simp: Number_Inr)
  have srv: "serve drv gen (Some coll) req =
      (put_product_reply (Inr (map_option (apply_set upd) (find (has_id ?oid) coll))),
       Some (update_first ?oid upd coll))"
    using assms(1-3) aw by (simp add: serve_ready routes_update findOneAndUpdate_def)
  have c1: "\<exists>d' coll'.
               serve drv gen (Some coll) req =
                 (json_reply 200 (Obj [(''message'', Str ''Product updated''), (''product'', Obj d')]),
                  Some coll')
               \<and> (\<forall>k. map_of d' k =
                         (if k = ''name'' \<and> b ''name'' \<noteq> None then b ''name''
                          else if k = ''category'' \<and> b ''category'' \<noteq> None then b ''category''
                          else if k = ''price'' \<and> b ''price'' \<noteq> None
                            then map_option (\<lambda>pr. Num (to_number pr)) (b ''price'')
                          else map_of d k))
               \<and> findOne coll' ?oid = Some d'
               \<and> length coll' = length coll
               \<and> (\<forall>x. \<not> has_id ?oid x \<longrightarrow> (x \<in> set coll' \<longleftrightarrow> x \<in> set coll))"
    if d: "findOne coll ?oid = Some d" for d
  proof (intro exI conjI)
    from d show "serve drv gen (Some coll) req =
        (json_reply 200 (Obj [(''message'', Str ''Product updated''),
                              (''product'', Obj (apply_set upd d))]),
         Some (update_first ?oid upd coll))"
      by (simp add: srv findOne_def put_product_reply_def)
    show "\<forall>k. map_of (apply_set upd d) k =
                         (if k = ''name'' \<and> b ''name'' \<noteq> None then b ''name''
                          else if k = ''category'' \<and> b ''category'' \<noteq> None then b ''category''
                          else if k = ''price'' \<and> b ''price'' \<noteq> None
                            then map_option (\<lambda>pr. Num (to_number pr)) (b ''price'')
                          else map_of d k)"
      unfolding upd_def by (intro allI) (rule update_set_lookup)
    from d show "findOne (update_first ?oid upd coll) ?oid = Some (apply_set upd d)"
      by (simp add: findOne_def find_update_first [OF keep])
    show "length (update_first ?oid upd coll) = length coll"
      by (rule length_update_first)
    show "\<forall>x. \<not> has_id ?oid x \<longrightarrow> (x \<in> set (update_first ?oid upd coll) \<longleftrightarrow> x \<in> set coll)"
      by (intro allI impI) (rule update_first_others [OF keep])
  qed
  have c2: "serve drv gen (Some coll) req = (error_reply 404 ''Not found'', Some coll)"
    if n: "findOne coll ?oid = None"
  proof -
    from n have "update_first ?oid upd coll = coll"
      by (simp add: findOne_None update_first_no_match)
    with n show ?thesis
      by (simp add: srv findOne_def put_product_reply_def)
  qed
  have c3: "findOne coll ?oid = None \<longleftrightarrow> (\<forall>d \<in> set coll. \<not> has_id ?oid d)"
    by (rule findOne_None)
  have c4: "put_product_reply (Inr v) =
                 (if truthy (map_option Obj v)
                  then json_reply 200 (Obj [(''message'', Str ''Product updated''),
                                            (''product'', Obj (the v))])
                  else error_reply 404 ''Not found'')" for v
    by (simp add: put_product_reply_def)
  from c1 c2 c3 c4 show ?thesis by (intro conjI allI impI)
qed

theorem partial_update_witness:
  "findOne three_products (new_ObjectId hex_driver id2) = Some (product id2 ''mug'' 10 ''kitchen'')
   \<and> (\<exists>d' coll'.
        serve hex_driver (ObjectId id4) (Some three_products)
          (item_request PUT id2 [''category'' \<mapsto> Str ''x''])
          = (json_reply 200 (Obj [(''message'', Str ''Product updated''), (''product'', Obj d')]),
             Some coll')
        \<and> map_of d' ''category'' = Some (Str ''x'')
        \<and> map_of d' ''name'' = Some (Str ''mug'')
        \<and> map_of d' ''price'' = Some (Num (Fin 10))
        \<and> map_of d' ''_id'' = Some (Oid (ObjectId id2)))
   \<and> serve hex_driver (ObjectId id4) (Some three_products)
       (item_request PUT id4 [''category'' \<mapsto> Str ''x''])
     = (error_reply 404 ''Not found'', Some three_products)"
proof -
  have 1: "req_method (item_request PUT x y) = PUT" "route (item_request PUT x y) = Product x"
    "body (item_request PUT x y) = Parsed y" for x y
    by (simp_all add: item_request_def)
  have v: "isValid hex_driver id2" "isValid hex_driver id4"
    by (simp_all add: example_defs hex_val_def)
  have f2: "findOne three_products (new_ObjectId hex_driver id2) = Some (product id2 ''mug'' 10 ''kitchen'')"
    and f4: "findOne three_products (new_ObjectId hex_driver id4) = None"
    by (simp_all add: findOne_def has_id_def example_defs)
  let ?b = "[''category'' \<mapsto> Str ''x'']"
  have s: "?b ''name'' \<noteq> None \<or> ?b ''price'' \<noteq> None \<or> ?b ''category'' \<noteq> None"
    and p: "\<forall>pr. ?b ''price'' = Some pr \<longrightarrow> (\<exists>p. Number pr = Inr p \<and> p \<noteq> NaN)"
    by simp_all
  note a = partial_update [where req = "item_request PUT id2 ?b" and i = id2 and b = ?b
      and drv = hex_driver and gen = "ObjectId id4" and coll = three_products, OF 1 v(1) s p]
  note b = partial_update [where req = "item_request PUT id4 ?b" and i = id4 and b = ?b
      and drv = hex_driver and gen = "ObjectId id4" and coll = three_products, OF 1 v(2) s p]
  from a f2 obtain d' coll' where
    r: "serve hex_driver (ObjectId id4) (Some three_products) (item_request PUT id2 ?b)
          = (json_reply 200 (Obj [(''message'', Str ''Product updated''), (''product'', Obj d')]),
             Some coll')"
    and k: "\<forall>k. map_of d' k =
               (if k = ''name'' \<and> ?b ''name'' \<noteq> None then ?b ''name''
                else if k = ''category'' \<and> ?b ''category'' \<noteq> None then ?b ''category''
                else if k = ''price'' \<and> ?b ''price'' \<noteq> None
                  then map_option (\<lambda>pr. Num (to_number pr)) (?b ''price'')
                else map_of (product id2 ''mug'' 10 ''kitchen'') k)"
    by blast
  from k have "map_of d' ''category'' = Some (Str ''x'')" "map_of d' ''name'' = Some (Str ''mug'')"
    "map_of d' ''price'' = Some (Num (Fin 10))" "map_of d' ''_id'' = Some (Oid (ObjectId id2))"
    by (simp_all add: product_def)
  with r have A: "\<exists>d' coll'.
        serve hex_driver (ObjectId id4) (Some three_products) (item_request PUT id2 ?b)
          = (json_reply 200 (Obj [(''message'', Str ''Product updated''), (''product'', Obj d')]),
             Some coll')
        \<and> map_of d' ''category'' = Some (Str ''x'')
        \<and> map_of d' ''name'' = Some (Str ''mug'')
        \<and> map_of d' ''price'' = Some (Num (Fin 10))
        \<and> map_of d' ''_id'' = Some (Oid (ObjectId id2))"
    by blast
  from b f4 have B: "serve hex_driver (ObjectId id4) (Some three_products) (item_request PUT id4 ?b)
     = (error_reply 404 ''Not found'', Some three_products)"
    by blast
  from f2 A B show ?thesis by (intro conjI)
qed

subsection \<open>What the validators establish for persisted products\<close>

text \<open>
  C4, as the claim states it, fails: the validators accept a create with the price
  \<^verbatim>\<open>-5\<close>, and a partial update that sets the name to the empty string; the
  products persisted then have a negative price and an empty name.
\<close>

theorem unvalidated_values_counterexample:
  "snd (serve hex_driver (ObjectId id4) (Some [])
          (create_request [''name'' \<mapsto> Str ''pen'', ''price'' \<mapsto> Num (Fin (- 5)),
                           ''category'' \<mapsto> Str ''office'']))
     = Some [[(''_id'', Oid (ObjectId id4)), (''name'', Str ''pen''), (''price'', Num (Fin (- 5))),
              (''category'', Str ''office'')]]
   \<and> snd (serve hex_driver (ObjectId id4) (Some [product id1 ''pen'' 5 ''office''])
            (item_request PUT id1 [''name'' \<mapsto> Str '''']))
     = Some [[(''_id'', Oid (ObjectId id1)), (''name'', Str ''''), (''price'', Num (Fin 5)),
              (''category'', Str ''office'')]]"
  by (simp add: item_eval example_defs hex_val_def)

lemma post_product_Await:
  assumes "post_product b = Await d"
  shows "\<exists>n p c. d = [(''name'', n), (''price'', Num p), (''category'', c)]
           \<and> truthy (Some n) \<and> truthy (Some c) \<and> p \<noteq> NaN"
proof -
  have "\<not> (\<not> truthy (b ''name'') \<or> b ''price'' = None \<or> \<not> truthy (b ''category''))"
  proof
    assume "\<not> truthy (b ''name'') \<or> b ''price'' = None \<or> \<not> truthy (b ''category'')"
    then have "post_product b =
        Done (error_reply 400 ''Missing required fields: name, price, category'')"
      by (rule post_product_missing)
    with assms show False by simp
  qed
  then have t: "truthy (b ''name'')" "b ''price'' \<noteq> None" "truthy (b ''category'')"
    by simp_all
  then obtain n pr c where "b ''name'' = Some n" "b ''price'' = Some pr" "b ''category'' = Some c"
    by (cases "b ''name''"; cases "b ''price''"; cases "b ''category''") auto
  with assms t show ?thesis
    by (auto simp: post_product_present split: sum.splits if_splits)
qed

lemma put_product_Await:
  assumes "put_product drv i b = Await (oid, upd)"
  shows "upd = (case b ''name'' of None \<Rightarrow> [] | Some n \<Rightarrow> [(''name'', n)])
             @ (case b ''category'' of None \<Rightarrow> [] | Some c \<Rightarrow> [(''category'', c)])
             @ (case b ''price'' of None \<Rightarrow> [] | Some pr \<Rightarrow> [(''price'', Num (to_number pr))])"
    and "\<forall>pr. b ''price'' = Some pr \<longrightarrow> to_number pr \<noteq> NaN"
proof -
  have v: "isValid drv i"
    using assms by (cases "isValid drv i") (auto simp: put_product_def)
  show "upd = (case b ''name'' of None \<Rightarrow> [] | Some n \<Rightarrow> [(''name'', n)])
             @ (case b ''category'' of None \<Rightarrow> [] | Some c \<Rightarrow> [(''category'', c)])
             @ (case b ''price'' of None \<Rightarrow> [] | Some pr \<Rightarrow> [(''price'', Num (to_number pr))])"
    using assms unfolding put_product_valid [OF v] Let_def
    by (auto split: if_splits option.splits sum.splits simp: Number_Inr)
  show "\<forall>pr. b ''price'' = Some pr \<longrightarrow> to_number pr \<noteq> NaN"
    using assms unfolding put_product_valid [OF v] Let_def
    by (auto split: if_splits option.splits sum.splits dest: Number_Inr)
qed

lemma product_ok_update:
  assumes "put_product drv i b = Await (oid, upd)" and "product_ok d"
  shows "product_ok (apply_set upd d)"
proof -
  note l = update_set_lookup [of b d, folded put_product_Await(1) [OF assms(1)]]
  from put_product_Await(2) [OF assms(1)] assms(2) show ?thesis
    unfolding product_ok_def l
    by (auto split: option.splits jsval.splits)
qed

lemma product_ok_insert:
  assumes "post_product b = Await d"
  shows "product_ok ((''_id'', Oid gen) # d)"
    and "truthy (map_of ((''_id'', Oid gen) # d) ''name'')"
    and "truthy (map_of ((''_id'', Oid gen) # d) ''category'')"
  using post_product_Await [OF assms] by (auto simp: product_ok_def)


lemma routes_collection:
  assumes "routes drv gen coll req b = (r, coll')"
  shows "coll' = coll
       \<or> (\<exists>d. post_product b = Await d \<and> coll' = coll @ [(''_id'', Oid gen) # d])
       \<or> (\<exists>i oid upd. put_product drv i b = Await (oid, upd) \<and> coll' = update_first oid upd coll)
       \<or> (\<exists>oid. coll' = remove_first oid coll)"
proof (cases "route req")
  case Root
  with assms show ?thesis
    by (auto simp: routes_def Let_def split: http_method.splits if_splits)
next
  case Products
  with assms show ?thesis
    by (auto simp: routes_def Let_def insertOne_def
        split: http_method.splits if_splits outcome.splits sum.splits prod.splits)
next
  case (Product i)
  with assms show ?thesis
    by (auto simp: routes_def Let_def findOneAndUpdate_def deleteOne_def
        split: http_method.splits if_splits outcome.splits sum.splits prod.splits)
next
  case Elsewhere
  with assms show ?thesis
    by (auto simp: routes_def Let_def split: http_method.splits if_splits)
qed

lemma routes_created:
  assumes "req_method req = POST" and "route req = Products"
    and "routes drv gen coll req b = (r, coll')" and "status r = 201"
  shows "\<exists>d. post_product b = Await d \<and> coll' = coll @ [(''_id'', Oid gen) # d]"
proof (cases "post_product b")
  case (Done r')
  with assms(1-3) have "r = r'" by (simp add: routes_create)
  moreover from Done have "status r' = 400 \<or> status r' = 500"
    by (auto simp: post_product_def Let_def reply_defs split: if_splits sum.splits)
  ultimately show ?thesis using assms(4) by simp
next
  case (Await d)
  with assms show ?thesis
    by (auto simp: routes_create insertOne_def post_product_reply_def reply_defs
        split: if_splits)
qed

text \<open>
  C4, amended. If every product of the collection has the four fields \<^verbatim>\<open>_id\<close>,
  \<^verbatim>\<open>name\<close>, \<^verbatim>\<open>price\<close> and \<^verbatim>\<open>category\<close>, the price a number other than NaN, then
  so has every product of the collection after any request, in particular after every
  create and every partial update that the validators accept. A product that a create
  adds has a truthy name and a truthy category (so not the empty string). The
  validators require neither text for name and category nor a price that is not
  negative, and a partial update may set name and category to any supplied value.
\<close>

theorem validators_invariant:
  assumes "\<forall>d \<in> set coll. product_ok d"
    and "serve drv gen (Some coll) req = (r, Some coll')"
  shows "(\<forall>d \<in> set coll'. product_ok d)
       \<and> (req_method req = POST \<and> route req = Products \<and> status r = 201 \<longrightarrow>
            (\<exists>d. coll' = coll @ [d] \<and> truthy (map_of d ''name'')
                 \<and> truthy (map_of d ''category'')))"
proof (cases "body req")
  case Malformed
  with assms show ?thesis by (auto simp: serve_def)
next
  case (Parsed b)
  with assms(2) have rt: "routes drv gen coll req b = (r, coll')"
    by (simp add: serve_def split: prod.splits)
  have inv: "\<forall>d \<in> set coll'. product_ok d"
  proof -
    from routes_collection [OF rt] consider
      (same) "coll' = coll"
      | (ins) d where "post_product b = Await d" "coll' = coll @ [(''_id'', Oid gen) # d]"
      | (upd) i oid upd where "put_product drv i b = Await (oid, upd)"
          "coll' = update_first oid upd coll"
      | (del) oid where "coll' = remove_first oid coll"
      by blast
    then show ?thesis
    proof cases
      case same
      with assms(1) show ?thesis by simp
    next
      case ins
      with assms(1) product_ok_insert(1) [OF ins(1), of gen] show ?thesis by simp
    next
      case upd
      show ?thesis
      proof
        fix d
        assume "d \<in> set coll'"
        with upd(2) set_update_first [of oid upd coll]
        have "d \<in> set coll \<or> (\<exists>x \<in> set coll. d = apply_set upd x)" by auto
        with assms(1) product_ok_update [OF upd(1)] show "product_ok d" by auto
      qed
    next
      case del
      with assms(1) set_remove_first [of oid coll] show ?thesis by auto
    qed
  qed
  have created: "\<exists>d. coll' = coll @ [d] \<and> truthy (map_of d ''name'')
                 \<and> truthy (map_of d ''category'')"
    if "req_method req = POST \<and> route req = Products \<and> status r = 201"
  proof -
    from that rt obtain d where d: "post_product b = Await d"
      and c: "coll' = coll @ [(''_id'', Oid gen) # d]"
      using routes_created [of req drv gen coll b r coll'] by blast
    from c product_ok_insert(2,3) [OF d, of gen] show ?thesis by blast
  qed
  from inv created show ?thesis by blast
qed

theorem validators_invariant_witness:
  "list_all product_ok three_products
   \<and> list_all product_ok (three_products @ [product id4 ''cup'' 7 ''kitchen''])
   \<and> serve hex_driver (ObjectId id4) (Some three_products)
       (create_request [''name'' \<mapsto> Str ''cup'', ''price'' \<mapsto> Num (Fin 7), ''category'' \<mapsto> Str ''kitchen''])
     = (json_reply 201 (Obj [(''message'', Str ''Product created''), (''id'', Oid (ObjectId id4))]),
        Some (three_products @ [product id4 ''cup'' 7 ''kitchen'']))"
proof -
  have ok: "\<forall>d \<in> set three_products. product_ok d"
    by (simp add: product_ok_def example_defs)
  have s: "serve hex_driver (ObjectId id4) (Some three_products)
       (create_request [''name'' \<mapsto> Str ''cup'', ''price'' \<mapsto> Num (Fin 7), ''category'' \<mapsto> Str ''kitchen''])
     = (json_reply 201 (Obj [(''message'', Str ''Product created''), (''id'', Oid (ObjectId id4))]),
        Some (three_products @ [product id4 ''cup'' 7 ''kitchen'']))"
    by (simp add: item_eval example_defs)
  from validators_invariant [OF ok s] have "\<forall>d \<in> set (three_products @ [product id4 ''cup'' 7 ''kitchen'']). product_ok d"
    by (rule conjunct1)
  with ok s show ?thesis
    unfolding list_all_iff by (intro conjI)
qed

end
